theory Spec2Isabelle
  imports Complex_Main "HOL-Library.AList"
begin

section \<open>Wallet ledger (packages/core/services/wallet-manager.ts)\<close>

text \<open>
  Amounts are integers in the minor currency unit (the \<open>amount\<close> column is an integer
  column), so they are modelled as \<open>int\<close>; a JavaScript number holds every integer up
  to \<open>2^53\<close> exactly, and the model is the code on ledgers whose sums stay in that range. The \<open>type\<close> and \<open>status\<close> columns are
  text columns and stay strings: an entry whose type is none of the five known ones falls
  through the \<open>switch\<close> of \<open>calculateBalance\<close> and changes nothing.
  Optional properties are \<open>option\<close> values; a property the manager leaves out of the
  object it builds (\<open>id\<close>, \<open>createdAt\<close>) is \<open>None\<close>.
\<close>

record Transaction =
  id :: "string option"
  tenantId :: string
  walletId :: string
  type :: string
  amount :: int
  currency :: string
  status :: string
  referenceType :: "string option"
  referenceId :: "string option"
  parentTransactionId :: "string option"
  description :: "string option"
  metadata :: "string option"
  createdBy :: string
  createdAt :: "string option"
  completedAt :: "string option"

record TransactionCreateInput =
  in_tenantId :: string
  in_walletId :: string
  in_type :: string
  in_amount :: int
  in_currency :: "string option"
  in_referenceType :: "string option"
  in_referenceId :: "string option"
  in_description :: "string option"
  in_metadata :: "string option"
  in_createdBy :: string

record WalletBalance =
  available :: int
  locked :: int
  total :: int
  bal_currency :: string

text \<open>\<open>WalletError message code\<close>: the exception thrown by the manager.\<close>

datatype WalletError = WalletError (message: string) (code: string)

text \<open>
  \<open>x || d\<close> on an optional string: the default is taken when the property is absent and
  also when it is the empty string, which is falsy.
\<close>

definition or_default :: "string option \<Rightarrow> string \<Rightarrow> string" where
  "or_default x d = (case x of None \<Rightarrow> d | Some s \<Rightarrow> if s = [] then d else s)"

text \<open>
  One pass of the loop body of \<open>calculateBalance\<close> over the pair (available, locked).
\<close>

definition balance_step :: "int \<times> int \<Rightarrow> Transaction \<Rightarrow> int \<times> int" where
  "balance_step acc tx =
     (case acc of (av, lk) \<Rightarrow>
        if status tx = ''completed'' then
          (if type tx = ''credit'' then (av + amount tx, lk)
           else if type tx = ''debit'' then (av - amount tx, lk)
           else if type tx = ''lock'' then (av - amount tx, lk + amount tx)
           else if type tx = ''unlock'' then (av + amount tx, lk - amount tx)
           else if type tx = ''refund'' then (av + amount tx, lk)
           else (av, lk))
        else (av, lk))"

definition calculateBalance :: "Transaction list \<Rightarrow> WalletBalance" where
  "calculateBalance transactions =
     (case foldl balance_step (0, 0) transactions of (av, lk) \<Rightarrow>
        \<lparr> available = av, locked = lk, total = av + lk,
          bal_currency = (case transactions of [] \<Rightarrow> ''USD''
                          | tx # _ \<Rightarrow> if currency tx = [] then ''USD'' else currency tx) \<rparr>)"

text \<open>
  The object every operation builds. \<open>now\<close> stands for \<open>new Date().toISOString()\<close>,
  read once per call.
\<close>

definition mk_transaction ::
  "string \<Rightarrow> string \<Rightarrow> string \<Rightarrow> string option \<Rightarrow> TransactionCreateInput \<Rightarrow> Transaction" where
  "mk_transaction now ty dflt parent input =
     \<lparr> id = None,
       tenantId = in_tenantId input,
       walletId = in_walletId input,
       type = ty,
       amount = in_amount input,
       currency = or_default (in_currency input) ''USD'',
       status = ''completed'',
       referenceType = in_referenceType input,
       referenceId = in_referenceId input,
       parentTransactionId = parent,
       description = Some (or_default (in_description input) dflt),
       metadata = in_metadata input,
       createdBy = in_createdBy input,
       createdAt = None,
       completedAt = Some now \<rparr>"

definition credit :: "string \<Rightarrow> TransactionCreateInput \<Rightarrow> WalletError + Transaction" where
  "credit now input =
     (if in_amount input \<le> 0
      then Inl (WalletError ''Credit amount must be positive'' ''INVALID_AMOUNT'')
      else Inr (mk_transaction now ''credit'' ''Wallet credit'' None input))"

definition debit ::
  "string \<Rightarrow> TransactionCreateInput \<Rightarrow> WalletBalance \<Rightarrow> WalletError + Transaction" where
  "debit now input currentBalance =
     (if in_amount input \<le> 0
      then Inl (WalletError ''Debit amount must be positive'' ''INVALID_AMOUNT'')
      else if available currentBalance < in_amount input
      then Inl (WalletError ''Insufficient balance'' ''INSUFFICIENT_BALANCE'')
      else Inr (mk_transaction now ''debit'' ''Wallet debit'' None input))"

definition lock ::
  "string \<Rightarrow> TransactionCreateInput \<Rightarrow> WalletBalance \<Rightarrow> WalletError + Transaction" where
  "lock now input currentBalance =
     (if in_amount input \<le> 0
      then Inl (WalletError ''Lock amount must be positive'' ''INVALID_AMOUNT'')
      else if available currentBalance < in_amount input
      then Inl (WalletError ''Insufficient balance to lock'' ''INSUFFICIENT_BALANCE'')
      else Inr (mk_transaction now ''lock'' ''Funds locked'' None input))"

definition unlock ::
  "string \<Rightarrow> TransactionCreateInput \<Rightarrow> string \<Rightarrow> WalletBalance \<Rightarrow> WalletError + Transaction" where
  "unlock now input lockTransactionId currentBalance =
     (if in_amount input \<le> 0
      then Inl (WalletError ''Unlock amount must be positive'' ''INVALID_AMOUNT'')
      else if locked currentBalance < in_amount input
      then Inl (WalletError ''Insufficient locked balance'' ''INSUFFICIENT_LOCKED_BALANCE'')
      else Inr (mk_transaction now ''unlock'' ''Funds unlocked'' (Some lockTransactionId) input))"

definition refund ::
  "string \<Rightarrow> TransactionCreateInput \<Rightarrow> string \<Rightarrow> WalletError + Transaction" where
  "refund now input originalTransactionId =
     (if in_amount input \<le> 0
      then Inl (WalletError ''Refund amount must be positive'' ''INVALID_AMOUNT'')
      else Inr (mk_transaction now ''refund'' ''Refund'' (Some originalTransactionId) input))"

text \<open>
  The input object the four order workflows pass down: reference \<open>(order, orderId)\<close>,
  no currency, no metadata.
\<close>

definition order_input ::
  "string \<Rightarrow> string \<Rightarrow> string \<Rightarrow> string \<Rightarrow> string \<Rightarrow> int \<Rightarrow> string
     \<Rightarrow> TransactionCreateInput" where
  "order_input ty descr walletId' tenantId' orderId amount' userId =
     \<lparr> in_tenantId = tenantId',
       in_walletId = walletId',
       in_type = ty,
       in_amount = amount',
       in_currency = None,
       in_referenceType = Some ''order'',
       in_referenceId = Some orderId,
       in_description = Some (descr @ orderId),
       in_metadata = None,
       in_createdBy = userId \<rparr>"

definition processOrderPayment ::
  "string \<Rightarrow> string \<Rightarrow> string \<Rightarrow> string \<Rightarrow> int \<Rightarrow> string \<Rightarrow> WalletBalance
     \<Rightarrow> WalletError + Transaction" where
  "processOrderPayment now walletId' tenantId' orderId amount' userId currentBalance =
     lock now (order_input ''lock'' ''Payment for order '' walletId' tenantId' orderId amount' userId)
       currentBalance"

text \<open>
  The unlock is awaited first, so its exception leaves before the debit is attempted;
  the debit is checked against the balance with the amount added back to \<open>available\<close>.
  The clock is read once by the unlock (\<open>now\<close>) and once more by the debit (\<open>now2\<close>).
\<close>

definition completeOrderPayment ::
  "string \<Rightarrow> string \<Rightarrow> string \<Rightarrow> string \<Rightarrow> string \<Rightarrow> int \<Rightarrow> string \<Rightarrow> string \<Rightarrow> WalletBalance
     \<Rightarrow> WalletError + (Transaction \<times> Transaction)" where
  "completeOrderPayment now now2 walletId' tenantId' orderId amount' lockTransactionId userId currentBalance =
     (case unlock now
             (order_input ''unlock'' ''Unlock for order '' walletId' tenantId' orderId amount' userId)
             lockTransactionId currentBalance of
        Inl e \<Rightarrow> Inl e
      | Inr ul \<Rightarrow>
          (case debit now2
                  (order_input ''debit'' ''Payment for order '' walletId' tenantId' orderId amount' userId)
                  (currentBalance\<lparr> available := available currentBalance + amount' \<rparr>) of
             Inl e \<Rightarrow> Inl e
           | Inr db \<Rightarrow> Inr (ul, db)))"

definition cancelOrderPayment ::
  "string \<Rightarrow> string \<Rightarrow> string \<Rightarrow> string \<Rightarrow> int \<Rightarrow> string \<Rightarrow> string \<Rightarrow> WalletBalance
     \<Rightarrow> WalletError + Transaction" where
  "cancelOrderPayment now walletId' tenantId' orderId amount' lockTransactionId userId currentBalance =
     unlock now
       (order_input ''unlock'' ''Cancelled order '' walletId' tenantId' orderId amount' userId)
       lockTransactionId currentBalance"

definition refundOrder ::
  "string \<Rightarrow> string \<Rightarrow> string \<Rightarrow> string \<Rightarrow> int \<Rightarrow> string \<Rightarrow> string
     \<Rightarrow> WalletError + Transaction" where
  "refundOrder now walletId' tenantId' orderId amount' originalTransactionId userId =
     refund now
       (order_input ''refund'' ''Refund for order '' walletId' tenantId' orderId amount' userId)
       originalTransactionId"

text \<open>
  The specification's reading of the balance: the sum of the amounts of the completed
  entries of one type.
\<close>

definition completed_sum :: "string \<Rightarrow> Transaction list \<Rightarrow> int" where
  "completed_sum ty txs =
     sum_list (map amount (filter (\<lambda>tx. status tx = ''completed'' \<and> type tx = ty) txs))"

section \<open>Order state machine (packages/core/services/order-state-machine.ts)\<close>

datatype OrderStatus =
    pending | payment_confirmed | approved | processing
  | delivered | failed | refunded | cancelled

record StateTransition =
  t_from :: OrderStatus
  t_to :: OrderStatus
  requiresRole :: "string list option"
  requiresApproval :: "bool option"

record TransitionResult =
  allowed :: bool
  reason :: "string option"

definition edge :: "OrderStatus \<Rightarrow> OrderStatus \<Rightarrow> string list option \<Rightarrow> StateTransition" where
  "edge a b r = \<lparr> t_from = a, t_to = b, requiresRole = r, requiresApproval = None \<rparr>"

text \<open>The table, in the order of the source.\<close>

definition transitions :: "StateTransition list" where
  "transitions =
     [ edge pending payment_confirmed None,
       edge pending cancelled None,
       edge payment_confirmed approved (Some [''super_admin'', ''admin'']),
       edge payment_confirmed processing None,
       edge payment_confirmed cancelled (Some [''super_admin'', ''admin'']),
       edge approved processing None,
       edge approved cancelled (Some [''super_admin'', ''admin'']),
       edge processing delivered None,
       edge processing failed None,
       edge failed processing None,
       edge failed refunded (Some [''super_admin'', ''admin'']),
       edge failed cancelled (Some [''super_admin'', ''admin'']),
       edge delivered refunded (Some [''super_admin'', ''admin'']) ]"

fun status_name :: "OrderStatus \<Rightarrow> string" where
  "status_name pending = ''pending''"
| "status_name payment_confirmed = ''payment_confirmed''"
| "status_name approved = ''approved''"
| "status_name processing = ''processing''"
| "status_name delivered = ''delivered''"
| "status_name failed = ''failed''"
| "status_name refunded = ''refunded''"
| "status_name cancelled = ''cancelled''"

definition quoted :: "string \<Rightarrow> string" where
  "quoted s = CHR 0x27 # s @ [CHR 0x27]"

text \<open>
  The role check runs under \<open>transition.requiresRole && userRole\<close>: the array is truthy
  whenever it is present, the role is truthy when it is given and not the empty string.
\<close>

definition canTransition :: "OrderStatus \<Rightarrow> OrderStatus \<Rightarrow> string option \<Rightarrow> TransitionResult" where
  "canTransition from' to' userRole =
     (if from' = to' then \<lparr> allowed = True, reason = None \<rparr>
      else
        (case find (\<lambda>t. t_from t = from' \<and> t_to t = to') transitions of
           None \<Rightarrow>
             \<lparr> allowed = False,
               reason = Some (''Transition from '' @ quoted (status_name from') @ '' to ''
                              @ quoted (status_name to') @ '' is not allowed'') \<rparr>
         | Some transition \<Rightarrow>
             (case requiresRole transition of
                None \<Rightarrow> \<lparr> allowed = True, reason = None \<rparr>
              | Some roles \<Rightarrow>
                  (case userRole of
                     None \<Rightarrow> \<lparr> allowed = True, reason = None \<rparr>
                   | Some r \<Rightarrow>
                       if r = [] then \<lparr> allowed = True, reason = None \<rparr>
                       else if List.member roles r then \<lparr> allowed = True, reason = None \<rparr>
                       else \<lparr> allowed = False,
                              reason = Some (''Role '' @ quoted r
                                             @ '' cannot perform this transition'') \<rparr>))))"


section \<open>Pricing engine (PricingEngine)\<close>

text \<open>
  Costs, markups and quantities are integers (cents, basis points, units), so
  \<open>Math.floor (a / 10000)\<close> is \<open>a div 10000\<close>, which rounds towards minus infinity as
  \<open>Math.floor\<close> does.
\<close>

datatype MarkupType = fixed | percentage | tiered

record Tier =
  minQuantity :: int
  maxQuantity :: "int option"
  tier_markupValue :: int

record TierConfig =
  tiers :: "Tier list"

record PricingRule =
  rule_id :: string
  serviceId :: string
  role :: string
  markupType :: MarkupType
  markupValue :: int
  minProfit :: "int option"
  maxProfit :: "int option"
  tierConfig :: "TierConfig option"

record PriceCalculation =
  baseCost :: int
  markup :: int
  totalAmount :: int
  profit :: int
  pc_currency :: string
  appliedRule :: "PricingRule option"

text \<open>
  Exceptions of the language runtime that the code does not catch. Reading a property of
  \<open>undefined\<close> throws a \<open>TypeError\<close>; \<open>new RegExp\<close> on a malformed pattern throws a
  \<open>SyntaxError\<close>; coercing an object can throw whatever its conversion methods throw.
\<close>

datatype js_error = TypeError | SyntaxError | ThrownByCoercion

definition calculateTieredMarkup :: "int \<Rightarrow> TierConfig \<Rightarrow> int \<Rightarrow> js_error + int" where
  "calculateTieredMarkup baseCost' tierConfig' quantity =
     (case find (\<lambda>t. quantity \<ge> minQuantity t
                      \<and> (case maxQuantity t of None \<Rightarrow> True | Some m \<Rightarrow> quantity \<le> m))
             (tiers tierConfig') of
        None \<Rightarrow>
          (case tiers tierConfig' of
             [] \<Rightarrow> Inl TypeError
           | firstTier # _ \<Rightarrow> Inr ((baseCost' * tier_markupValue firstTier) div 10000))
      | Some tier \<Rightarrow> Inr ((baseCost' * tier_markupValue tier) div 10000))"

text \<open>The two \<open>if\<close> statements that apply the profit limits, minimum first.\<close>

definition apply_limits :: "PricingRule \<Rightarrow> int \<Rightarrow> int" where
  "apply_limits rule m =
     (let m1 = (case minProfit rule of None \<Rightarrow> m | Some lo \<Rightarrow> if m < lo then lo else m)
      in (case maxProfit rule of None \<Rightarrow> m1 | Some hi \<Rightarrow> if m1 > hi then hi else m1))"

definition calculatePrice ::
  "int \<Rightarrow> PricingRule list \<Rightarrow> string \<Rightarrow> int \<Rightarrow> string \<Rightarrow> js_error + PriceCalculation" where
  "calculatePrice baseCost' rules userRole quantity currency' =
     (case find (\<lambda>r. role r = userRole) rules of
        None \<Rightarrow>
          Inr \<lparr> baseCost = baseCost', markup = 0, totalAmount = baseCost' * quantity,
                profit = 0, pc_currency = currency', appliedRule = None \<rparr>
      | Some rule \<Rightarrow>
          (case (case markupType rule of
                   fixed \<Rightarrow> Inr (markupValue rule)
                 | percentage \<Rightarrow> Inr ((baseCost' * markupValue rule) div 10000)
                 | tiered \<Rightarrow>
                     (case tierConfig rule of
                        None \<Rightarrow> Inr 0
                      | Some tc \<Rightarrow> calculateTieredMarkup baseCost' tc quantity)) of
             Inl e \<Rightarrow> Inl e
           | Inr raw \<Rightarrow>
               (let markup' = apply_limits rule raw
                in Inr \<lparr> baseCost = baseCost', markup = markup',
                         totalAmount = (baseCost' + markup') * quantity,
                         profit = markup' * quantity,
                         pc_currency = currency', appliedRule = Some rule \<rparr>)))"

record HierarchyEntry =
  h_role :: string
  h_userId :: string

record ProfitShare =
  ps_userId :: string
  ps_role :: string
  ps_profit :: int

text \<open>
  One pass of the loop of \<open>calculateProfitDistribution\<close> over the pair
  (distribution, remainingProfit); \<open>push\<close> appends.
\<close>

definition distribution_step ::
  "int \<Rightarrow> PricingRule list \<Rightarrow> ProfitShare list \<times> int \<Rightarrow> HierarchyEntry
     \<Rightarrow> ProfitShare list \<times> int" where
  "distribution_step baseCost' rules acc entry =
     (case acc of (distribution, remainingProfit) \<Rightarrow>
        (case find (\<lambda>r. role r = h_role entry) rules of
           None \<Rightarrow>
             (distribution @ [\<lparr> ps_userId = h_userId entry, ps_role = h_role entry, ps_profit = 0 \<rparr>],
              remainingProfit)
         | Some rule \<Rightarrow>
             if remainingProfit \<le> 0 then
               (distribution @ [\<lparr> ps_userId = h_userId entry, ps_role = h_role entry, ps_profit = 0 \<rparr>],
                remainingProfit)
             else
               (let p0 = (case markupType rule of
                            fixed \<Rightarrow> min (markupValue rule) remainingProfit
                          | percentage \<Rightarrow>
                              min ((baseCost' * markupValue rule) div 10000) remainingProfit
                          | tiered \<Rightarrow> 0);
                    p1 = (case minProfit rule of
                            None \<Rightarrow> p0
                          | Some lo \<Rightarrow> if p0 < lo then min lo remainingProfit else p0);
                    roleProfit = (case maxProfit rule of
                            None \<Rightarrow> p1
                          | Some hi \<Rightarrow> if p1 > hi then hi else p1)
                in (distribution @ [\<lparr> ps_userId = h_userId entry, ps_role = h_role entry,
                                      ps_profit = roleProfit \<rparr>],
                    remainingProfit - roleProfit))))"

text \<open>The loop runs from the last entry of the hierarchy to the first.\<close>

definition calculateProfitDistribution ::
  "int \<Rightarrow> int \<Rightarrow> HierarchyEntry list \<Rightarrow> PricingRule list \<Rightarrow> ProfitShare list" where
  "calculateProfitDistribution baseCost' finalPrice roleHierarchy rules =
     rev (fst (foldl (distribution_step baseCost' rules) ([], finalPrice - baseCost')
                 (rev roleHierarchy)))"

record RuleValidation =
  rule_valid :: bool
  rule_errors :: "string list option"

text \<open>
  The overlap loop over the sorted tiers: it stops at the first overlapping pair; a
  \<open>maxQuantity\<close> of 0 is falsy and skips the comparison.
\<close>

fun tiers_overlap :: "Tier list \<Rightarrow> bool" where
  "tiers_overlap (current # next # rest) =
     (if (case maxQuantity current of None \<Rightarrow> False
          | Some m \<Rightarrow> m \<noteq> 0 \<and> m \<ge> minQuantity next)
      then True else tiers_overlap (next # rest))"
| "tiers_overlap _ = False"

definition rule_error_list :: "PricingRule \<Rightarrow> string list" where
  "rule_error_list rule =
     (if markupValue rule < 0 then [''Markup value cannot be negative''] else [])
     @ (if markupType rule = percentage \<and> markupValue rule > 10000
        then [''Percentage markup cannot exceed 100% (10000 basis points)''] else [])
     @ (case (minProfit rule, maxProfit rule) of
          (Some lo, Some hi) \<Rightarrow>
            if lo > hi then [''Minimum profit cannot exceed maximum profit''] else []
        | _ \<Rightarrow> [])
     @ (if markupType rule = tiered then
          (case tierConfig rule of
             None \<Rightarrow> [''Tiered markup requires tier configuration'']
           | Some tc \<Rightarrow>
               if tiers tc = [] then [''Tiered markup requires tier configuration'']
               else if tiers_overlap (sort_key minQuantity (tiers tc))
               then [''Tier ranges cannot overlap''] else [])
        else [])"

text \<open>
  \<open>validateRule\<close> sorts the tier array of a tiered rule in place, so it returns the rule
  as it is left behind together with its verdict. \<open>Array.prototype.sort\<close> is stable, as
  \<open>sort_key\<close> is.
\<close>

definition validateRule :: "PricingRule \<Rightarrow> RuleValidation \<times> PricingRule" where
  "validateRule rule =
     (let errs = rule_error_list rule
      in (\<lparr> rule_valid = (errs = []),
            rule_errors = (if errs = [] then None else Some errs) \<rparr>,
          (if markupType rule = tiered then
             (case tierConfig rule of
                None \<Rightarrow> rule
              | Some tc \<Rightarrow>
                  if tiers tc = [] then rule
                  else rule\<lparr> tierConfig := Some (tc\<lparr> tiers := sort_key minQuantity (tiers tc) \<rparr>) \<rparr>)
           else rule)))"

section \<open>Schema validator (packages/core/services/schema-validator.ts)\<close>

text \<open>
  Input values are JavaScript values. The validator only compares numbers, so a number is
  its exact value, \<open>NaN\<close> or an infinity. Every value that is not \<open>undefined\<close>, \<open>null\<close>,
  a boolean, a number or a string (an object, an array, a function, a symbol, a bigint)
  is an opaque reference \<open>JOther\<close>.

  What the language runtime computes and the source does not is a parameter, the record
  \<open>js_runtime\<close>: \<open>RegExp p\<close> is \<open>new RegExp(p)\<close>, \<open>None\<close> when the pattern is malformed
  and the constructor throws, otherwise the \<open>test\<close> method of the expression;
  \<open>emailRegex_test\<close> is the \<open>test\<close> method of the expression literal of \<open>isValidEmail\<close>,
  which is compiled with the module and cannot throw; the other fields convert strings
  and opaque values, and the conversion of an opaque value can throw.
\<close>

datatype jsnum = NaN | Finite rat | PosInfinity | NegInfinity

datatype jsval =
    JUndefined | JNull | JBoolean bool | JNumber jsnum | JString string | JOther nat

record js_runtime =
  RegExp :: "string \<Rightarrow> (string \<Rightarrow> bool) option"
  emailRegex_test :: "string \<Rightarrow> bool"
  StringToNumber :: "string \<Rightarrow> jsnum"
  NumberToString :: "jsnum \<Rightarrow> string"
  OtherToNumber :: "nat \<Rightarrow> js_error + jsnum"
  OtherToString :: "nat \<Rightarrow> js_error + string"
  OtherToBoolean :: "nat \<Rightarrow> bool"

text \<open>Sequencing of steps that can throw: the first exception ends the computation.\<close>

definition bind_err :: "js_error + 'a \<Rightarrow> ('a \<Rightarrow> js_error + 'b) \<Rightarrow> js_error + 'b" where
  "bind_err m f = (case m of Inl e \<Rightarrow> Inl e | Inr x \<Rightarrow> f x)"

fun js_less :: "jsnum \<Rightarrow> jsnum \<Rightarrow> bool" where
  "js_less NaN _ = False"
| "js_less _ NaN = False"
| "js_less (Finite x) (Finite y) = (x < y)"
| "js_less (Finite _) PosInfinity = True"
| "js_less (Finite _) NegInfinity = False"
| "js_less PosInfinity _ = False"
| "js_less NegInfinity NegInfinity = False"
| "js_less NegInfinity _ = True"

definition js_isNaN :: "jsnum \<Rightarrow> bool" where
  "js_isNaN n = (n = NaN)"

fun js_Number :: "js_runtime \<Rightarrow> jsval \<Rightarrow> js_error + jsnum" where
  "js_Number R JUndefined = Inr NaN"
| "js_Number R JNull = Inr (Finite 0)"
| "js_Number R (JBoolean b) = Inr (Finite (if b then 1 else 0))"
| "js_Number R (JNumber n) = Inr n"
| "js_Number R (JString s) = Inr (StringToNumber R s)"
| "js_Number R (JOther r) = OtherToNumber R r"

fun js_String :: "js_runtime \<Rightarrow> jsval \<Rightarrow> js_error + string" where
  "js_String R JUndefined = Inr ''undefined''"
| "js_String R JNull = Inr ''null''"
| "js_String R (JBoolean b) = Inr (if b then ''true'' else ''false'')"
| "js_String R (JNumber n) = Inr (NumberToString R n)"
| "js_String R (JString s) = Inr s"
| "js_String R (JOther r) = OtherToString R r"

fun js_Boolean :: "js_runtime \<Rightarrow> jsval \<Rightarrow> bool" where
  "js_Boolean R JUndefined = False"
| "js_Boolean R JNull = False"
| "js_Boolean R (JBoolean b) = b"
| "js_Boolean R (JNumber n) = (n \<noteq> NaN \<and> n \<noteq> Finite 0)"
| "js_Boolean R (JString s) = (s \<noteq> [])"
| "js_Boolean R (JOther r) = OtherToBoolean R r"

text \<open>A number used as a condition: falsy when it is \<open>NaN\<close> or zero.\<close>

definition truthy_num :: "jsnum \<Rightarrow> bool" where
  "truthy_num n = (n \<noteq> NaN \<and> n \<noteq> Finite 0)"

datatype FieldType =
  ft_text | ft_number | ft_email | ft_file | ft_select | ft_textarea | ft_checkbox

record FieldValidation =
  pattern :: "string option"
  minLength :: "jsnum option"
  maxLength :: "jsnum option"
  v_min :: "jsnum option"
  v_max :: "jsnum option"
  options :: "string list option"
  unique :: "bool option"
  custom :: "string option"

record FieldSchema =
  name :: string
  field_type :: FieldType
  label :: string
  required :: bool
  placeholder :: "string option"
  f_description :: "string option"
  validation :: "FieldValidation option"

record ServiceInputSchema =
  schema_fields :: "FieldSchema list"

text \<open>
  The two result objects \<open>errors\<close> and \<open>data\<close> are lists of the own keys with their
  values; the order of a list carries no meaning.
\<close>

record ValidationResult =
  valid :: bool
  errors :: "(string \<times> string list) list option"
  data :: "(string \<times> jsval) list option"

text \<open>
  The assignment \<open>obj[k] = v\<close> on an object created by \<open>{}\<close>. Every key becomes an own
  key of the object, replacing the value of a key already present, except \<open>__proto__\<close>:
  that assignment goes to the prototype setter and leaves the own keys as they are.
\<close>

definition obj_assign :: "string \<Rightarrow> 'v \<Rightarrow> (string \<times> 'v) list \<Rightarrow> (string \<times> 'v) list" where
  "obj_assign k v obj = (if k = ''__proto__'' then obj else AList.update k v obj)"

text \<open>\<open>value === undefined || value === null || value === ''\<close>\<close>

definition is_blank :: "jsval \<Rightarrow> bool" where
  "is_blank v = (v = JUndefined \<or> v = JNull \<or> v = JString [])"

definition isValidEmail :: "js_runtime \<Rightarrow> string \<Rightarrow> bool" where
  "isValidEmail R email = emailRegex_test R email"

fun join :: "string \<Rightarrow> string list \<Rightarrow> string" where
  "join sep [] = []"
| "join sep [x] = x"
| "join sep (x # y # ys) = x @ sep @ join sep (y # ys)"

text \<open>
  The block of additional rules, entered only when the field has a \<open>validation\<close> object
  and the type check left no error. Each rule that fails pushes one message. The rules
  run in the order of the source; the pattern rule throws when the pattern is malformed,
  the range rules and the option rule throw when the coercion of the value does.
\<close>

definition pattern_rule :: "js_runtime \<Rightarrow> FieldSchema \<Rightarrow> FieldValidation \<Rightarrow> jsval \<Rightarrow> js_error + string list" where
  "pattern_rule R field v val =
     (case (pattern v, val) of
        (Some p, JString s) \<Rightarrow>
          if p = [] then Inr []
          else (case RegExp R p of
                  None \<Rightarrow> Inl SyntaxError
                | Some test \<Rightarrow> Inr (if test s then [] else [label field @ '' format is invalid'']))
      | _ \<Rightarrow> Inr [])"

definition length_rules :: "js_runtime \<Rightarrow> FieldSchema \<Rightarrow> FieldValidation \<Rightarrow> jsval \<Rightarrow> string list" where
  "length_rules R field v val =
     (case (minLength v, val) of
        (Some n, JString s) \<Rightarrow>
          if truthy_num n \<and> js_less (Finite (of_nat (length s))) n
          then [label field @ '' must be at least '' @ NumberToString R n @ '' characters'']
          else []
      | _ \<Rightarrow> [])
     @ (case (maxLength v, val) of
          (Some n, JString s) \<Rightarrow>
            if truthy_num n \<and> js_less n (Finite (of_nat (length s)))
            then [label field @ '' must be at most '' @ NumberToString R n @ '' characters'']
            else []
        | _ \<Rightarrow> [])"

definition min_rule :: "js_runtime \<Rightarrow> FieldSchema \<Rightarrow> FieldValidation \<Rightarrow> jsval \<Rightarrow> js_error + string list" where
  "min_rule R field v val =
     (case v_min v of
        None \<Rightarrow> Inr []
      | Some n \<Rightarrow>
          bind_err (js_Number R val)
            (\<lambda>x. Inr (if js_less x n
                       then [label field @ '' must be at least '' @ NumberToString R n] else [])))"

definition max_rule :: "js_runtime \<Rightarrow> FieldSchema \<Rightarrow> FieldValidation \<Rightarrow> jsval \<Rightarrow> js_error + string list" where
  "max_rule R field v val =
     (case v_max v of
        None \<Rightarrow> Inr []
      | Some n \<Rightarrow>
          bind_err (js_Number R val)
            (\<lambda>x. Inr (if js_less n x
                       then [label field @ '' must be at most '' @ NumberToString R n] else [])))"

definition options_rule :: "js_runtime \<Rightarrow> FieldSchema \<Rightarrow> FieldValidation \<Rightarrow> jsval \<Rightarrow> js_error + string list" where
  "options_rule R field v val =
     (case options v of
        None \<Rightarrow> Inr []
      | Some opts \<Rightarrow>
          bind_err (js_String R val)
            (\<lambda>str. Inr (if List.member opts str then []
                         else [label field @ '' must be one of: '' @ join '', '' opts])))"

definition rule_checks :: "js_runtime \<Rightarrow> FieldSchema \<Rightarrow> FieldValidation \<Rightarrow> jsval \<Rightarrow> js_error + string list" where
  "rule_checks R field v val =
     bind_err (pattern_rule R field v val) (\<lambda>e1.
     bind_err (min_rule R field v val) (\<lambda>e2.
     bind_err (max_rule R field v val) (\<lambda>e3.
     bind_err (options_rule R field v val) (\<lambda>e4.
       Inr (e1 @ length_rules R field v val @ e2 @ e3 @ e4)))))"

text \<open>
  The \<open>switch\<close> on the field type: the messages it pushes and the value it stores in
  \<open>data\<close>, if any. \<open>Number(value)\<close> is evaluated for a value that is not a number.
\<close>

definition type_check :: "js_runtime \<Rightarrow> FieldSchema \<Rightarrow> jsval \<Rightarrow> js_error + (string list \<times> jsval option)" where
  "type_check R field val =
     (case field_type field of
        ft_number \<Rightarrow>
          (case val of
             JNumber n \<Rightarrow> Inr ([], Some (JNumber n))
           | _ \<Rightarrow>
               bind_err (js_Number R val)
                 (\<lambda>x. Inr (if js_isNaN x then ([label field @ '' must be a number''], None)
                            else ([], Some (JNumber x)))))
      | ft_email \<Rightarrow>
          (case val of
             JString s \<Rightarrow>
               Inr (if isValidEmail R s then ([], Some val)
                    else ([label field @ '' must be a valid email''], None))
           | _ \<Rightarrow> Inr ([label field @ '' must be a valid email''], None))
      | ft_checkbox \<Rightarrow> Inr ([], Some (JBoolean (js_Boolean R val)))
      | _ \<Rightarrow> Inr ([], Some val))"

text \<open>
  The body of the loop for one field: the messages pushed to \<open>fieldErrors\<close> and the value
  stored under the field's name in \<open>data\<close>, if any, or the exception that leaves the
  loop. The two early \<open>continue\<close>s come first.
\<close>

definition field_check :: "js_runtime \<Rightarrow> FieldSchema \<Rightarrow> jsval \<Rightarrow> js_error + (string list \<times> jsval option)" where
  "field_check R field val =
     (if required field \<and> is_blank val then Inr ([label field @ '' is required''], None)
      else if \<not> required field \<and> is_blank val then Inr ([], None)
      else
        bind_err (type_check R field val) (\<lambda>(typeErrors, stored).
        bind_err (case validation field of
                    None \<Rightarrow> Inr []
                  | Some v \<Rightarrow> if typeErrors = [] then rule_checks R field v val else Inr [])
          (\<lambda>more. Inr (typeErrors @ more, stored))))"

text \<open>
  One pass of the loop of \<open>validate\<close> over the pair (errors, data). The input object is
  given by its property read \<open>input[k]\<close>, a function from keys to values: what it returns
  for a key includes what the object inherits, and \<open>undefined\<close> for a key it does not
  have at all.
\<close>

definition validate_step ::
  "js_runtime \<Rightarrow> (string \<Rightarrow> jsval)
     \<Rightarrow> (string \<times> string list) list \<times> (string \<times> jsval) list \<Rightarrow> FieldSchema
     \<Rightarrow> js_error + ((string \<times> string list) list \<times> (string \<times> jsval) list)" where
  "validate_step R input' acc field =
     (case acc of (errs, dat) \<Rightarrow>
        bind_err (field_check R field (input' (name field))) (\<lambda>(fieldErrors, stored).
          Inr (if fieldErrors = [] then errs else obj_assign (name field) fieldErrors errs,
               (case stored of None \<Rightarrow> dat | Some v \<Rightarrow> obj_assign (name field) v dat))))"

fun validate_loop ::
  "js_runtime \<Rightarrow> (string \<Rightarrow> jsval)
     \<Rightarrow> (string \<times> string list) list \<times> (string \<times> jsval) list \<Rightarrow> FieldSchema list
     \<Rightarrow> js_error + ((string \<times> string list) list \<times> (string \<times> jsval) list)" where
  "validate_loop R input' acc [] = Inr acc"
| "validate_loop R input' acc (field # rest) =
     (case validate_step R input' acc field of
        Inl e \<Rightarrow> Inl e
      | Inr acc' \<Rightarrow> validate_loop R input' acc' rest)"

definition validate ::
  "js_runtime \<Rightarrow> ServiceInputSchema \<Rightarrow> (string \<Rightarrow> jsval) \<Rightarrow> js_error + ValidationResult" where
  "validate R schema input' =
     (case validate_loop R input' ([], []) (schema_fields schema) of
        Inl e \<Rightarrow> Inl e
      | Inr (errs, dat) \<Rightarrow>
          Inr \<lparr> valid = (errs = []),
                errors = (if errs = [] then None else Some errs),
                data = (if errs = [] then Some dat else None) \<rparr>)"

definition exampleIMEISchema :: ServiceInputSchema where
  "exampleIMEISchema =
     \<lparr> schema_fields =
        [ \<lparr> name = ''imei'', field_type = ft_text, label = ''IMEI Number'', required = True,
            placeholder = Some ''123456789012345'',
            f_description = Some ''15-digit IMEI number'',
            validation = Some \<lparr> pattern = Some ''^[0-9]{15}$'', minLength = Some (Finite 15),
                                 maxLength = Some (Finite 15), v_min = None, v_max = None,
                                 options = None, unique = None, custom = None \<rparr> \<rparr>,
          \<lparr> name = ''model'', field_type = ft_text, label = ''Device Model'', required = False,
            placeholder = Some ''iPhone 14 Pro'', f_description = None, validation = None \<rparr> ] \<rparr>"

section \<open>Vocabulary of the properties\<close>

text \<open>
  What the ledger expects of an entry written by the manager for an operation of type
  \<open>ty\<close> on a positive amount \<open>amt\<close> at time \<open>now\<close>.
\<close>

definition completed_entry :: "string \<Rightarrow> int \<Rightarrow> string \<Rightarrow> Transaction \<Rightarrow> bool" where
  "completed_entry ty amt now tx =
     (status tx = ''completed'' \<and> type tx = ty \<and> amount tx = amt \<and> 0 < amt
      \<and> completedAt tx = Some now)"

text \<open>
  The normalized value of a field, in the specification's words: a \<open>number\<close> field holds
  the value coerced to a number, a \<open>checkbox\<close> field the value coerced to a boolean, every
  other field the value as it was given.
\<close>

definition normalized :: "js_runtime \<Rightarrow> FieldSchema \<Rightarrow> jsval \<Rightarrow> jsval option" where
  "normalized R field val =
     (case field_type field of
        ft_number \<Rightarrow> (case js_Number R val of Inr n \<Rightarrow> Some (JNumber n) | Inl _ \<Rightarrow> None)
      | ft_checkbox \<Rightarrow> Some (JBoolean (js_Boolean R val))
      | _ \<Rightarrow> Some val)"

text \<open>Sample data on which the theorems below are run.\<close>

definition sample_tx :: "string \<Rightarrow> int \<Rightarrow> string \<Rightarrow> Transaction" where
  "sample_tx ty amt st =
     \<lparr> id = Some ''tx'', tenantId = ''t1'', walletId = ''w1'', type = ty, amount = amt,
       currency = ''USD'', status = st, referenceType = None, referenceId = None,
       parentTransactionId = None, description = None, metadata = None,
       createdBy = ''u1'', createdAt = None, completedAt = None \<rparr>"

definition sample_input :: "int \<Rightarrow> TransactionCreateInput" where
  "sample_input amt =
     \<lparr> in_tenantId = ''t1'', in_walletId = ''w1'', in_type = ''credit'', in_amount = amt,
       in_currency = None, in_referenceType = None, in_referenceId = None,
       in_description = None, in_metadata = None, in_createdBy = ''u1'' \<rparr>"

definition sample_balance :: "int \<Rightarrow> int \<Rightarrow> WalletBalance" where
  "sample_balance av lk = \<lparr> available = av, locked = lk, total = av + lk, bal_currency = ''USD'' \<rparr>"

definition sample_rule :: "MarkupType \<Rightarrow> int \<Rightarrow> int option \<Rightarrow> int option \<Rightarrow> PricingRule" where
  "sample_rule mt mv lo hi =
     \<lparr> rule_id = ''r1'', serviceId = ''s1'', role = ''reseller'', markupType = mt,
       markupValue = mv, minProfit = lo, maxProfit = hi, tierConfig = None \<rparr>"

definition sample_tiered_rule :: PricingRule where
  "sample_tiered_rule =
     \<lparr> rule_id = ''r2'', serviceId = ''s1'', role = ''reseller'', markupType = tiered,
       markupValue = 0, minProfit = None, maxProfit = Some 5000,
       tierConfig = Some \<lparr> tiers =
         [ \<lparr> minQuantity = 10, maxQuantity = None, tier_markupValue = 500 \<rparr>,
           \<lparr> minQuantity = 1, maxQuantity = Some 9, tier_markupValue = 1000 \<rparr> ] \<rparr> \<rparr>"

definition sample_runtime :: js_runtime where
  "sample_runtime =
     \<lparr> RegExp = (\<lambda>p. if p = ''^[0-9]{15}$''
                     then Some (\<lambda>s. length s = 15 \<and> list_all (\<lambda>c. c \<in> set ''0123456789'') s)
                     else if p = ''['' then None
                     else Some (\<lambda>s. True)),
       emailRegex_test = (\<lambda>s. CHR ''@'' \<in> set s),
       StringToNumber = (\<lambda>s. NaN),
       NumberToString = (\<lambda>n. if n = Finite 15 then ''15'' else ''NaN''),
       OtherToNumber = (\<lambda>r. Inr NaN),
       OtherToString = (\<lambda>r. Inr ''[object Object]''),
       OtherToBoolean = (\<lambda>r. True) \<rparr>"

definition sample_field :: "string \<Rightarrow> string option \<Rightarrow> FieldSchema" where
  "sample_field nm pat =
     \<lparr> name = nm, field_type = ft_text, label = ''Serial'', required = True,
       placeholder = None, f_description = None,
       validation = (case pat of
                       None \<Rightarrow> None
                     | Some p \<Rightarrow> Some \<lparr> pattern = Some p, minLength = None, maxLength = None,
                                         v_min = None, v_max = None, options = None,
                                         unique = None, custom = None \<rparr>) \<rparr>"

text \<open>
  \<open>sample_object key v\<close> is the input object with the one property \<open>key\<close>, as
  \<open>JSON.parse\<close> builds it; \<open>imei_input s\<close> is \<open>{imei: s}\<close>.
\<close>

definition sample_object :: "string \<Rightarrow> jsval \<Rightarrow> string \<Rightarrow> jsval" where
  "sample_object key v = (\<lambda>k. if k = key then v else JUndefined)"

definition imei_input :: "string \<Rightarrow> string \<Rightarrow> jsval" where
  "imei_input s = (\<lambda>k. if k = ''imei'' then JString s else JUndefined)"

section \<open>Properties of the wallet ledger\<close>

lemma balance_step_sum:
  "balance_step (a, l) tx =
     (a + (completed_sum ''credit'' [tx] - completed_sum ''debit'' [tx] - completed_sum ''lock'' [tx]
           + completed_sum ''unlock'' [tx] + completed_sum ''refund'' [tx]),
      l + (completed_sum ''lock'' [tx] - completed_sum ''unlock'' [tx]))"
  by (simp add: balance_step_def completed_sum_def)

lemma completed_sum_Cons:
  "completed_sum ty (tx # txs) = completed_sum ty [tx] + completed_sum ty txs"
  by (simp add: completed_sum_def)

lemma foldl_balance_step:
  "foldl balance_step (a, l) txs =
     (a + (completed_sum ''credit'' txs - completed_sum ''debit'' txs - completed_sum ''lock'' txs
           + completed_sum ''unlock'' txs + completed_sum ''refund'' txs),
      l + (completed_sum ''lock'' txs - completed_sum ''unlock'' txs))"
proof (induction txs arbitrary: a l)
  case Nil
  show ?case by (simp add: completed_sum_def)
next
  case (Cons tx txs)
  have "foldl balance_step (a, l) (tx # txs) = foldl balance_step (balance_step (a, l) tx) txs"
    by simp
  also have "\<dots> = (a + (completed_sum ''credit'' (tx # txs) - completed_sum ''debit'' (tx # txs)
           - completed_sum ''lock'' (tx # txs)
           + completed_sum ''unlock'' (tx # txs) + completed_sum ''refund'' (tx # txs)),
      l + (completed_sum ''lock'' (tx # txs) - completed_sum ''unlock'' (tx # txs)))"
    unfolding balance_step_sum Cons.IH
    by (simp add: completed_sum_Cons [of _ tx txs])
  finally show ?case .
qed

lemma available_calculateBalance:
  "available (calculateBalance txs) =
     completed_sum ''credit'' txs - completed_sum ''debit'' txs - completed_sum ''lock'' txs
       + completed_sum ''unlock'' txs + completed_sum ''refund'' txs"
  by (simp add: calculateBalance_def foldl_balance_step)

lemma locked_calculateBalance:
  "locked (calculateBalance txs) = completed_sum ''lock'' txs - completed_sum ''unlock'' txs"
  by (simp add: calculateBalance_def foldl_balance_step)

lemma total_calculateBalance:
  "total (calculateBalance txs) = available (calculateBalance txs) + locked (calculateBalance txs)"
  by (simp add: calculateBalance_def foldl_balance_step)

lemma completed_sum_filter:
  "completed_sum ty (filter (\<lambda>tx. status tx = ''completed'') txs) = completed_sum ty txs"
  by (simp add: completed_sum_def conj_commute cong: conj_cong)

lemma completed_sum_append:
  "completed_sum ty (xs @ ys) = completed_sum ty xs + completed_sum ty ys"
  by (simp add: completed_sum_def)

text \<open>
  Claim C1. For every list of transactions, \<open>calculateBalance\<close> returns as available
  balance the sum of the credit amounts minus the debit amounts minus the lock amounts
  plus the unlock amounts plus the refund amounts, and as locked balance the sum of the
  lock amounts minus the unlock amounts, where only entries of status \<open>completed\<close> are
  counted: dropping every entry of another status from the list changes neither balance.
  The total is the sum of the two.
\<close>

theorem calculateBalance_ledger_sums:
  "available (calculateBalance txs) =
     completed_sum ''credit'' txs - completed_sum ''debit'' txs - completed_sum ''lock'' txs
       + completed_sum ''unlock'' txs + completed_sum ''refund'' txs
   \<and> locked (calculateBalance txs) = completed_sum ''lock'' txs - completed_sum ''unlock'' txs
   \<and> total (calculateBalance txs) = available (calculateBalance txs) + locked (calculateBalance txs)
   \<and> available (calculateBalance (filter (\<lambda>tx. status tx = ''completed'') txs))
        = available (calculateBalance txs)
   \<and> locked (calculateBalance (filter (\<lambda>tx. status tx = ''completed'') txs))
        = locked (calculateBalance txs)"
  by (simp add: available_calculateBalance locked_calculateBalance total_calculateBalance
        completed_sum_filter)

theorem calculateBalance_ledger_sums_witness:
  "available (calculateBalance [sample_tx ''credit'' 100 ''completed'', sample_tx ''lock'' 30 ''completed'',
       sample_tx ''debit'' 50 ''pending'', sample_tx ''unlock'' 10 ''completed'']) = 80
   \<and> locked (calculateBalance [sample_tx ''credit'' 100 ''completed'', sample_tx ''lock'' 30 ''completed'',
       sample_tx ''debit'' 50 ''pending'', sample_tx ''unlock'' 10 ''completed'']) = 20"
  using calculateBalance_ledger_sums [of "[sample_tx ''credit'' 100 ''completed'',
       sample_tx ''lock'' 30 ''completed'', sample_tx ''debit'' 50 ''pending'',
       sample_tx ''unlock'' 10 ''completed'']"]
  by (simp add: completed_sum_def sample_tx_def)

lemma mk_transaction_simps:
  "status (mk_transaction now ty d p input) = ''completed''"
  "type (mk_transaction now ty d p input) = ty"
  "amount (mk_transaction now ty d p input) = in_amount input"
  "completedAt (mk_transaction now ty d p input) = Some now"
  by (simp_all add: mk_transaction_def)

lemma order_input_amount: "in_amount (order_input ty d w t oid amt u) = amt"
  by (simp add: order_input_def)

text \<open>
  Claim C4. For a positive amount and any current balance, \<open>debit\<close> and \<open>lock\<close> fail
  with the code \<open>INSUFFICIENT_BALANCE\<close> exactly when the available balance is strictly
  below the amount; in that case neither returns an entry, and otherwise each returns
  one transaction of its own type.
\<close>

theorem debit_lock_insufficient_balance:
  assumes "0 < in_amount input"
  shows "((\<exists>e. debit now input bal = Inl e \<and> code e = ''INSUFFICIENT_BALANCE'')
            \<longleftrightarrow> available bal < in_amount input)
       \<and> ((\<exists>e. lock now input bal = Inl e \<and> code e = ''INSUFFICIENT_BALANCE'')
            \<longleftrightarrow> available bal < in_amount input)
       \<and> (available bal < in_amount input \<longrightarrow>
            (\<forall>tx. debit now input bal \<noteq> Inr tx) \<and> (\<forall>tx. lock now input bal \<noteq> Inr tx))
       \<and> (\<not> available bal < in_amount input \<longrightarrow>
            (\<exists>tx. debit now input bal = Inr tx \<and> type tx = ''debit'')
            \<and> (\<exists>tx. lock now input bal = Inr tx \<and> type tx = ''lock''))"
  using assms by (simp add: debit_def lock_def mk_transaction_simps)

theorem debit_lock_insufficient_balance_witness:
  "0 < in_amount (sample_input 10)
   \<and> (\<exists>e. debit ''2026'' (sample_input 10) (sample_balance 5 0) = Inl e \<and> code e = ''INSUFFICIENT_BALANCE'')
   \<and> (\<exists>e. lock ''2026'' (sample_input 10) (sample_balance 5 0) = Inl e \<and> code e = ''INSUFFICIENT_BALANCE'')
   \<and> (\<exists>tx. debit ''2026'' (sample_input 10) (sample_balance 10 0) = Inr tx \<and> type tx = ''debit'')
   \<and> (\<exists>tx. lock ''2026'' (sample_input 10) (sample_balance 10 0) = Inr tx \<and> type tx = ''lock'')"
proof -
  have h: "0 < in_amount (sample_input 10)" by (simp add: sample_input_def)
  have lo: "available (sample_balance 5 0) < in_amount (sample_input 10)"
    by (simp add: sample_input_def sample_balance_def)
  have hi: "\<not> available (sample_balance 10 0) < in_amount (sample_input 10)"
    by (simp add: sample_input_def sample_balance_def)
  show ?thesis
    using h lo hi
      debit_lock_insufficient_balance [OF h, of "''2026''" "sample_balance 5 0"]
      debit_lock_insufficient_balance [OF h, of "''2026''" "sample_balance 10 0"]
    by blast
qed

lemma completed_entry_moves_available:
  assumes "completed_entry ty amt now tx"
    and "ty \<in> set [''credit'', ''debit'', ''lock'', ''unlock'', ''refund'']"
  shows "available (calculateBalance (txs @ [tx])) \<noteq> available (calculateBalance txs)"
  using assms
  by (auto simp add: available_calculateBalance completed_sum_append completed_entry_def
        completed_sum_def)

text \<open>
  Claim C10. Every transaction returned by \<open>credit\<close>, \<open>debit\<close>, \<open>lock\<close>, \<open>unlock\<close> and
  \<open>refund\<close>, and by the four order workflows built on them, has status \<open>completed\<close>,
  the type of the operation, the amount that was passed in (which is positive) and a
  completion timestamp; appended to any ledger, such an entry changes the available
  balance that \<open>calculateBalance\<close> derives.
\<close>

theorem wallet_entries_completed:
  "(\<forall>tx. credit now input = Inr tx \<longrightarrow> completed_entry ''credit'' (in_amount input) now tx)
   \<and> (\<forall>tx. debit now input bal = Inr tx \<longrightarrow> completed_entry ''debit'' (in_amount input) now tx)
   \<and> (\<forall>tx. lock now input bal = Inr tx \<longrightarrow> completed_entry ''lock'' (in_amount input) now tx)
   \<and> (\<forall>tx. unlock now input lid bal = Inr tx \<longrightarrow> completed_entry ''unlock'' (in_amount input) now tx)
   \<and> (\<forall>tx. refund now input oid = Inr tx \<longrightarrow> completed_entry ''refund'' (in_amount input) now tx)
   \<and> (\<forall>tx. processOrderPayment now w t ord amt u bal = Inr tx \<longrightarrow> completed_entry ''lock'' amt now tx)
   \<and> (\<forall>ul db. completeOrderPayment now now_d w t ord amt lid u bal = Inr (ul, db) \<longrightarrow>
         completed_entry ''unlock'' amt now ul \<and> completed_entry ''debit'' amt now_d db)
   \<and> (\<forall>tx. cancelOrderPayment now w t ord amt lid u bal = Inr tx \<longrightarrow> completed_entry ''unlock'' amt now tx)
   \<and> (\<forall>tx. refundOrder now w t ord amt oid u = Inr tx \<longrightarrow> completed_entry ''refund'' amt now tx)
   \<and> (\<forall>ty \<in> set [''credit'', ''debit'', ''lock'', ''unlock'', ''refund''].
        \<forall>a tx txs. completed_entry ty a now tx \<longrightarrow>
          available (calculateBalance (txs @ [tx])) \<noteq> available (calculateBalance txs))"
proof -
  have prim:
    "\<And>i tx. credit now i = Inr tx \<Longrightarrow> completed_entry ''credit'' (in_amount i) now tx"
    "\<And>n i b tx. debit n i b = Inr tx \<Longrightarrow> completed_entry ''debit'' (in_amount i) n tx"
    "\<And>i b tx. lock now i b = Inr tx \<Longrightarrow> completed_entry ''lock'' (in_amount i) now tx"
    "\<And>i l b tx. unlock now i l b = Inr tx \<Longrightarrow> completed_entry ''unlock'' (in_amount i) now tx"
    "\<And>i l tx. refund now i l = Inr tx \<Longrightarrow> completed_entry ''refund'' (in_amount i) now tx"
    by (auto simp add: credit_def debit_def lock_def unlock_def refund_def completed_entry_def
          mk_transaction_simps split: if_splits)
  have comp: "\<And>ul db. completeOrderPayment now now_d w t ord amt lid u bal = Inr (ul, db) \<Longrightarrow>
         completed_entry ''unlock'' amt now ul \<and> completed_entry ''debit'' amt now_d db"
    unfolding completeOrderPayment_def
    by (auto split: sum.splits dest!: prim(2) prim(4) simp add: order_input_amount)
  have moves: "\<forall>ty \<in> set [''credit'', ''debit'', ''lock'', ''unlock'', ''refund''].
        \<forall>a tx txs. completed_entry ty a now tx \<longrightarrow>
          available (calculateBalance (txs @ [tx])) \<noteq> available (calculateBalance txs)"
    using completed_entry_moves_available by blast
  have pr: "\<And>tx. processOrderPayment now w t ord amt u bal = Inr tx
               \<Longrightarrow> completed_entry ''lock'' amt now tx"
    unfolding processOrderPayment_def by (drule prim(3)) (simp add: order_input_amount)
  have ca: "\<And>tx. cancelOrderPayment now w t ord amt lid u bal = Inr tx
               \<Longrightarrow> completed_entry ''unlock'' amt now tx"
    unfolding cancelOrderPayment_def by (drule prim(4)) (simp add: order_input_amount)
  have ro: "\<And>tx. refundOrder now w t ord amt oid u = Inr tx
               \<Longrightarrow> completed_entry ''refund'' amt now tx"
    unfolding refundOrder_def by (drule prim(5)) (simp add: order_input_amount)
  show ?thesis
    using prim pr ca ro comp moves by (intro conjI) blast+
qed

theorem wallet_entries_completed_witness:
  "credit ''2026'' (sample_input 10)
     = Inr (mk_transaction ''2026'' ''credit'' ''Wallet credit'' None (sample_input 10))
   \<and> completed_entry ''credit'' 10 ''2026''
         (mk_transaction ''2026'' ''credit'' ''Wallet credit'' None (sample_input 10))
   \<and> completeOrderPayment ''2026'' ''2027'' ''w1'' ''t1'' ''o1'' 10 ''lk1'' ''u1'' (sample_balance 0 10)
     = Inr (mk_transaction ''2026'' ''unlock'' ''Funds unlocked'' (Some ''lk1'')
              (order_input ''unlock'' ''Unlock for order '' ''w1'' ''t1'' ''o1'' 10 ''u1''),
            mk_transaction ''2027'' ''debit'' ''Wallet debit'' None
              (order_input ''debit'' ''Payment for order '' ''w1'' ''t1'' ''o1'' 10 ''u1''))
   \<and> completed_entry ''debit'' 10 ''2027''
         (mk_transaction ''2027'' ''debit'' ''Wallet debit'' None
              (order_input ''debit'' ''Payment for order '' ''w1'' ''t1'' ''o1'' 10 ''u1''))
   \<and> available (calculateBalance ([] @
         [mk_transaction ''2026'' ''credit'' ''Wallet credit'' None (sample_input 10)]))
       \<noteq> available (calculateBalance [])"
proof -
  have a: "in_amount (sample_input 10) = 10"
    by (simp add: sample_input_def)
  have c: "credit ''2026'' (sample_input 10)
     = Inr (mk_transaction ''2026'' ''credit'' ''Wallet credit'' None (sample_input 10))"
    by (simp add: credit_def sample_input_def)
  have p: "completeOrderPayment ''2026'' ''2027'' ''w1'' ''t1'' ''o1'' 10 ''lk1'' ''u1'' (sample_balance 0 10)
     = Inr (mk_transaction ''2026'' ''unlock'' ''Funds unlocked'' (Some ''lk1'')
              (order_input ''unlock'' ''Unlock for order '' ''w1'' ''t1'' ''o1'' 10 ''u1''),
            mk_transaction ''2027'' ''debit'' ''Wallet debit'' None
              (order_input ''debit'' ''Payment for order '' ''w1'' ''t1'' ''o1'' 10 ''u1''))"
    by (simp add: completeOrderPayment_def unlock_def debit_def order_input_def sample_balance_def)
  have m: "''credit'' \<in> set [''credit'', ''debit'', ''lock'', ''unlock'', ''refund'']"
    by simp
  show ?thesis
    using a c p m
      wallet_entries_completed [where now = "''2026''" and now_d = "''2027''"
        and input = "sample_input 10" and bal = "sample_balance 0 10" and lid = "''lk1''"
        and oid = "''tx0''" and w = "''w1''" and t = "''t1''" and ord = "''o1''" and amt = 10
        and u = "''u1''"]
    by metis
qed

text \<open>
  Claim C3. Let the computed balance of a ledger have \<open>available \<ge> amount > 0\<close>. Then
  \<open>processOrderPayment\<close> returns a lock entry, and for the unlock and debit entries that
  \<open>completeOrderPayment\<close> returns for that amount, the ledger extended by lock, unlock and
  debit has an available balance lower by exactly the amount and the same locked balance.
  \<open>completeOrderPayment\<close>, run against the balance after the lock, does return its two
  entries whenever the locked balance of the ledger was not negative.
\<close>

theorem order_payment_round_trip:
  assumes "0 < amt" and "amt \<le> available (calculateBalance txs)"
  shows "\<exists>lk. processOrderPayment now w t ord amt u (calculateBalance txs) = Inr lk
     \<and> (\<forall>now1 now2 lid bal ul db.
           completeOrderPayment now1 now2 w t ord amt lid u bal = Inr (ul, db) \<longrightarrow>
             available (calculateBalance (txs @ [lk, ul, db]))
               = available (calculateBalance txs) - amt
             \<and> locked (calculateBalance (txs @ [lk, ul, db])) = locked (calculateBalance txs))
     \<and> (0 \<le> locked (calculateBalance txs) \<longrightarrow>
           (\<exists>ul db. completeOrderPayment now_u now_d w t ord amt lid u
                        (calculateBalance (txs @ [lk]))
                      = Inr (ul, db)))"
proof -
  let ?lk = "mk_transaction now ''lock'' ''Funds locked'' None
               (order_input ''lock'' ''Payment for order '' w t ord amt u)"
  have lk: "processOrderPayment now w t ord amt u (calculateBalance txs) = Inr ?lk"
    using assms by (simp add: processOrderPayment_def lock_def order_input_amount)
  have lk_entry: "completed_entry ''lock'' amt now ?lk"
    using assms(1) by (simp add: completed_entry_def mk_transaction_simps order_input_amount)
  have sums: "\<And>ty. completed_sum ty [?lk] = (if ty = ''lock'' then amt else 0)"
    by (simp add: completed_sum_def mk_transaction_simps order_input_amount)
  have eqs: "available (calculateBalance (txs @ [?lk, ul, db]))
               = available (calculateBalance txs) - amt
             \<and> locked (calculateBalance (txs @ [?lk, ul, db])) = locked (calculateBalance txs)"
    if "completeOrderPayment now1 now2 w t ord amt lid' u bal = Inr (ul, db)"
    for now1 now2 lid' bal ul db
  proof -
    from that have "completed_entry ''unlock'' amt now1 ul" "completed_entry ''debit'' amt now2 db"
      unfolding completeOrderPayment_def
      by (auto split: sum.splits if_splits
            simp add: unlock_def debit_def completed_entry_def mk_transaction_simps order_input_amount)
    then have "\<And>ty. completed_sum ty [ul] = (if ty = ''unlock'' then amt else 0)"
      "\<And>ty. completed_sum ty [db] = (if ty = ''debit'' then amt else 0)"
      by (auto simp add: completed_sum_def completed_entry_def)
    then show ?thesis
      using sums
      by (simp add: available_calculateBalance locked_calculateBalance
            completed_sum_append [of _ txs] completed_sum_Cons [of _ _ "[ul, db]"]
            completed_sum_Cons [of _ _ "[db]"])
  qed
  have after: "locked (calculateBalance (txs @ [?lk])) = locked (calculateBalance txs) + amt"
    "available (calculateBalance (txs @ [?lk])) = available (calculateBalance txs) - amt"
    using sums by (simp_all add: available_calculateBalance locked_calculateBalance completed_sum_append)
  have prod: "\<exists>ul db. completeOrderPayment now_u now_d w t ord amt lid u
                        (calculateBalance (txs @ [?lk]))
                      = Inr (ul, db)"
    if "0 \<le> locked (calculateBalance txs)"
    using that assms after
    by (simp add: completeOrderPayment_def unlock_def debit_def order_input_amount)
  show ?thesis
    using lk eqs prod by blast
qed

theorem order_payment_round_trip_witness:
  "(0::int) < 30
   \<and> 30 \<le> available (calculateBalance [sample_tx ''credit'' 100 ''completed''])
   \<and> (\<exists>lk ul db.
         processOrderPayment ''2026'' ''w1'' ''t1'' ''o1'' 30 ''u1''
             (calculateBalance [sample_tx ''credit'' 100 ''completed'']) = Inr lk
         \<and> completeOrderPayment ''2027'' ''2028'' ''w1'' ''t1'' ''o1'' 30 ''lk1'' ''u1''
             (calculateBalance ([sample_tx ''credit'' 100 ''completed''] @ [lk])) = Inr (ul, db)
         \<and> available (calculateBalance ([sample_tx ''credit'' 100 ''completed''] @ [lk, ul, db])) = 70
         \<and> locked (calculateBalance ([sample_tx ''credit'' 100 ''completed''] @ [lk, ul, db])) = 0)"
proof -
  have av: "available (calculateBalance [sample_tx ''credit'' 100 ''completed'']) = 100"
    and lo: "locked (calculateBalance [sample_tx ''credit'' 100 ''completed'']) = 0"
    by (simp_all add: calculateBalance_def balance_step_def sample_tx_def)
  have h1: "(0::int) < 30" by simp
  have h2: "30 \<le> available (calculateBalance [sample_tx ''credit'' 100 ''completed''])"
    by (simp add: av)
  from order_payment_round_trip [OF h1 h2, where now = "''2026''" and w = "''w1''" and t = "''t1''"
      and ord = "''o1''" and u = "''u1''" and lid = "''lk1''" and now_u = "''2027''"
      and now_d = "''2028''"]
  obtain lk where
    a: "processOrderPayment ''2026'' ''w1'' ''t1'' ''o1'' 30 ''u1''
             (calculateBalance [sample_tx ''credit'' 100 ''completed'']) = Inr lk"
    and b: "\<And>now1 now2 lid bal ul db.
           completeOrderPayment now1 now2 ''w1'' ''t1'' ''o1'' 30 lid ''u1'' bal = Inr (ul, db) \<Longrightarrow>
             available (calculateBalance ([sample_tx ''credit'' 100 ''completed''] @ [lk, ul, db]))
               = available (calculateBalance [sample_tx ''credit'' 100 ''completed'']) - 30
             \<and> locked (calculateBalance ([sample_tx ''credit'' 100 ''completed''] @ [lk, ul, db]))
               = locked (calculateBalance [sample_tx ''credit'' 100 ''completed''])"
    and c: "0 \<le> locked (calculateBalance [sample_tx ''credit'' 100 ''completed'']) \<Longrightarrow>
           \<exists>ul db. completeOrderPayment ''2027'' ''2028'' ''w1'' ''t1'' ''o1'' 30 ''lk1'' ''u1''
             (calculateBalance ([sample_tx ''credit'' 100 ''completed''] @ [lk])) = Inr (ul, db)"
    by blast
  from c lo obtain ul db where
    d: "completeOrderPayment ''2027'' ''2028'' ''w1'' ''t1'' ''o1'' 30 ''lk1'' ''u1''
             (calculateBalance ([sample_tx ''credit'' 100 ''completed''] @ [lk])) = Inr (ul, db)"
    by auto
  from b [OF d] av lo have
    "available (calculateBalance ([sample_tx ''credit'' 100 ''completed''] @ [lk, ul, db])) = 70"
    "locked (calculateBalance ([sample_tx ''credit'' 100 ''completed''] @ [lk, ul, db])) = 0"
    by simp_all
  with a d h1 h2 show ?thesis by blast
qed

section \<open>Properties of the order state machine\<close>






text \<open>
  Claim C7, as the role check has it. For every edge of the table that carries a
  required-role set, a caller who gives a role outside the set is rejected with the
  reason naming that role, and a caller who gives a role of the set is allowed. The check
  runs only when a role is given: a caller with no role, or with the empty string as
  role, is allowed on every such edge.
\<close>

theorem role_gated_edges:
  "\<forall>e \<in> set transitions. \<forall>roles. requiresRole e = Some roles \<longrightarrow>
     (\<forall>r. r \<noteq> [] \<and> r \<notin> set roles \<longrightarrow>
        canTransition (t_from e) (t_to e) (Some r) =
          \<lparr> allowed = False,
            reason = Some (''Role '' @ quoted r @ '' cannot perform this transition'') \<rparr>)
     \<and> (\<forall>r \<in> set roles. allowed (canTransition (t_from e) (t_to e) (Some r)))
     \<and> allowed (canTransition (t_from e) (t_to e) None)
     \<and> allowed (canTransition (t_from e) (t_to e) (Some []))"
  by (simp add: transitions_def edge_def canTransition_def)

theorem role_gated_edges_witness:
  "canTransition failed refunded (Some ''reseller'') =
     \<lparr> allowed = False,
       reason = Some (''Role '' @ quoted ''reseller'' @ '' cannot perform this transition'') \<rparr>
   \<and> allowed (canTransition failed refunded (Some ''admin''))
   \<and> allowed (canTransition failed refunded None)"
proof -
  have e: "edge failed refunded (Some [''super_admin'', ''admin'']) \<in> set transitions"
    by (simp add: transitions_def)
  have r: "requiresRole (edge failed refunded (Some [''super_admin'', ''admin'']))
             = Some [''super_admin'', ''admin'']"
    "t_from (edge failed refunded (Some [''super_admin'', ''admin''])) = failed"
    "t_to (edge failed refunded (Some [''super_admin'', ''admin''])) = refunded"
    by (simp_all add: edge_def)
  have n: "''reseller'' \<noteq> [] \<and> ''reseller'' \<notin> set [''super_admin'', ''admin'']"
    "''admin'' \<in> set [''super_admin'', ''admin'']"
    by simp_all
  from role_gated_edges [rule_format, OF e r(1)] show ?thesis
    using n unfolding r by blast
qed

text \<open>
  The statement including callers without a role fails: \<open>payment_confirmed \<rightarrow> approved\<close>
  is gated, and a caller that supplies no role is allowed to take it.
\<close>

theorem role_gate_counterexample:
  "List.member transitions (edge payment_confirmed approved (Some [''super_admin'', ''admin'']))
   \<and> allowed (canTransition payment_confirmed approved None)"
  by (simp add: canTransition_def transitions_def edge_def)

section \<open>Properties of the pricing engine\<close>

lemma percent_nonneg: "0 \<le> b \<Longrightarrow> 0 \<le> v \<Longrightarrow> 0 \<le> (b * v) div (10000::int)"
  by (simp add: pos_imp_zdiv_nonneg_iff)

lemma calculateTieredMarkup_nonneg:
  assumes "tiers tc \<noteq> []" and "\<forall>t \<in> set (tiers tc). 0 \<le> tier_markupValue t" and "0 \<le> b"
  shows "\<exists>m. calculateTieredMarkup b tc q = Inr m \<and> 0 \<le> m"
proof (cases "find (\<lambda>t. q \<ge> minQuantity t
                      \<and> (case maxQuantity t of None \<Rightarrow> True | Some m \<Rightarrow> q \<le> m)) (tiers tc)")
  case None
  with assms show ?thesis
    by (cases "tiers tc") (simp_all add: calculateTieredMarkup_def percent_nonneg)
next
  case (Some tier)
  then have "tier \<in> set (tiers tc)"
    by (auto simp add: find_Some_iff)
  with assms Some show ?thesis
    by (simp add: calculateTieredMarkup_def percent_nonneg)
qed

lemma apply_limits_nonneg:
  assumes "0 \<le> m" and "\<forall>hi. maxProfit rule = Some hi \<longrightarrow> 0 \<le> hi"
  shows "0 \<le> apply_limits rule m"
  using assms by (auto simp add: apply_limits_def Let_def split: option.splits)

lemma calculatePrice_nonneg:
  assumes good: "\<forall>r \<in> set rules.
        0 \<le> markupValue r \<and> (\<forall>hi. maxProfit r = Some hi \<longrightarrow> 0 \<le> hi)
        \<and> (markupType r = tiered \<longrightarrow>
             (\<forall>tc. tierConfig r = Some tc \<longrightarrow>
                tiers tc \<noteq> [] \<and> (\<forall>t \<in> set (tiers tc). 0 \<le> tier_markupValue t)))"
    and b: "0 \<le> b"
  shows "\<exists>pc. calculatePrice b rules u q cur = Inr pc \<and> 0 \<le> markup pc"
proof (cases "find (\<lambda>r. role r = u) rules")
  case None
  then show ?thesis by (simp add: calculatePrice_def)
next
  case (Some rule)
  then have "rule \<in> set rules" by (auto simp add: find_Some_iff)
  with good have g: "0 \<le> markupValue rule" "\<forall>hi. maxProfit rule = Some hi \<longrightarrow> 0 \<le> hi"
    "markupType rule = tiered \<Longrightarrow> tierConfig rule = Some tc \<Longrightarrow>
       tiers tc \<noteq> [] \<and> (\<forall>t \<in> set (tiers tc). 0 \<le> tier_markupValue t)" for tc
    by blast+
  have "\<exists>raw. (case markupType rule of
                   fixed \<Rightarrow> Inr (markupValue rule)
                 | percentage \<Rightarrow> Inr ((b * markupValue rule) div 10000)
                 | tiered \<Rightarrow>
                     (case tierConfig rule of
                        None \<Rightarrow> Inr 0
                      | Some tc \<Rightarrow> calculateTieredMarkup b tc q)) = (Inr raw :: js_error + int)
               \<and> 0 \<le> raw"
  proof (cases "markupType rule")
    case fixed
    with g(1) show ?thesis by simp
  next
    case percentage
    with g(1) b show ?thesis by (simp add: percent_nonneg)
  next
    case tiered
    show ?thesis
    proof (cases "tierConfig rule")
      case None
      with tiered show ?thesis by simp
    next
      case (Some tc)
      from g(3) [OF tiered Some] b calculateTieredMarkup_nonneg [of tc b q]
      show ?thesis using tiered Some by simp
    qed
  qed
  then obtain raw where raw: "(case markupType rule of
                   fixed \<Rightarrow> Inr (markupValue rule)
                 | percentage \<Rightarrow> Inr ((b * markupValue rule) div 10000)
                 | tiered \<Rightarrow>
                     (case tierConfig rule of
                        None \<Rightarrow> Inr 0
                      | Some tc \<Rightarrow> calculateTieredMarkup b tc q)) = (Inr raw :: js_error + int)"
    and "0 \<le> raw" by blast
  from \<open>0 \<le> raw\<close> g(2) have "0 \<le> apply_limits rule raw"
    by (rule apply_limits_nonneg)
  then show ?thesis
    unfolding calculatePrice_def Some option.case raw sum.case
    by (simp add: Let_def)
qed

lemma validateRule_accepts:
  assumes "rule_valid (fst (validateRule r))"
  shows "0 \<le> markupValue r"
    and "markupType r = tiered \<Longrightarrow> \<exists>tc. tierConfig r = Some tc \<and> tiers tc \<noteq> []"
  using assms
  by (auto simp add: validateRule_def rule_error_list_def Let_def split: if_splits option.splits)

lemma validateRule_rule_after:
  "markupValue (snd (validateRule r)) = markupValue r"
  "maxProfit (snd (validateRule r)) = maxProfit r"
  "markupType (snd (validateRule r)) = markupType r"
  "tierConfig (snd (validateRule r)) = Some tc' \<Longrightarrow>
     \<exists>tc. tierConfig r = Some tc \<and> set (tiers tc') = set (tiers tc)"
  by (auto simp add: validateRule_def Let_def split: if_splits option.splits)

lemma distribution_step_bounds:
  assumes rules: "\<forall>r \<in> set rules. 0 \<le> markupValue r
                    \<and> (\<forall>lo. minProfit r = Some lo \<longrightarrow> 0 \<le> lo)
                    \<and> (\<forall>hi. maxProfit r = Some hi \<longrightarrow> 0 \<le> hi)"
    and b: "0 \<le> b" and pool: "0 \<le> pool"
  shows "\<exists>p. distribution_step b rules (shares, pool) e = (shares @ [p], pool - ps_profit p)
           \<and> 0 \<le> ps_profit p \<and> ps_profit p \<le> pool
           \<and> ps_userId p = h_userId e \<and> ps_role p = h_role e"
proof (cases "find (\<lambda>r. role r = h_role e) rules")
  case None
  with pool show ?thesis by (simp add: distribution_step_def)
next
  case (Some rule)
  then have "rule \<in> set rules" by (auto simp add: find_Some_iff)
  with rules have g: "0 \<le> markupValue rule" "\<And>lo. minProfit rule = Some lo \<Longrightarrow> 0 \<le> lo"
    "\<And>hi. maxProfit rule = Some hi \<Longrightarrow> 0 \<le> hi"
    by blast+
  show ?thesis
  proof (cases "pool \<le> 0")
    case True
    with pool Some show ?thesis by (simp add: distribution_step_def)
  next
    case False
    define p0 where "p0 = (case markupType rule of
                            fixed \<Rightarrow> min (markupValue rule) pool
                          | percentage \<Rightarrow> min ((b * markupValue rule) div 10000) pool
                          | tiered \<Rightarrow> 0)"
    define p1 where "p1 = (case minProfit rule of
                            None \<Rightarrow> p0
                          | Some lo \<Rightarrow> if p0 < lo then min lo pool else p0)"
    define p2 where "p2 = (case maxProfit rule of
                            None \<Rightarrow> p1
                          | Some hi \<Rightarrow> if p1 > hi then hi else p1)"
    have "0 \<le> (b * markupValue rule) div 10000"
      using b g(1) by (simp add: pos_imp_zdiv_nonneg_iff)
    then have p0: "0 \<le> p0 \<and> p0 \<le> pool"
      using g(1) pool by (cases "markupType rule") (simp_all add: p0_def)
    then have p1: "0 \<le> p1 \<and> p1 \<le> pool"
      using g(2) pool by (auto simp add: p1_def split: option.splits)
    then have p2: "0 \<le> p2 \<and> p2 \<le> pool"
      using g(3) by (auto simp add: p2_def split: option.splits)
    have "distribution_step b rules (shares, pool) e =
            (shares @ [\<lparr> ps_userId = h_userId e, ps_role = h_role e, ps_profit = p2 \<rparr>], pool - p2)"
      using False Some unfolding distribution_step_def p2_def p1_def p0_def Let_def by simp
    with p2 show ?thesis by simp
  qed
qed

lemma distribution_fold_bounds:
  assumes rules: "\<forall>r \<in> set rules. 0 \<le> markupValue r
                    \<and> (\<forall>lo. minProfit r = Some lo \<longrightarrow> 0 \<le> lo)
                    \<and> (\<forall>hi. maxProfit r = Some hi \<longrightarrow> 0 \<le> hi)"
    and b: "0 \<le> b"
  shows "0 \<le> pool \<Longrightarrow> \<forall>p \<in> set shares. 0 \<le> ps_profit p \<Longrightarrow>
         (\<forall>p \<in> set (fst (foldl (distribution_step b rules) (shares, pool) es)). 0 \<le> ps_profit p)
         \<and> 0 \<le> snd (foldl (distribution_step b rules) (shares, pool) es)
         \<and> sum_list (map ps_profit (fst (foldl (distribution_step b rules) (shares, pool) es)))
             + snd (foldl (distribution_step b rules) (shares, pool) es)
           = sum_list (map ps_profit shares) + pool
         \<and> map ps_role (fst (foldl (distribution_step b rules) (shares, pool) es))
           = map ps_role shares @ map h_role es"
proof (induction es arbitrary: shares pool)
  case Nil
  then show ?case by simp
next
  case (Cons e es)
  from distribution_step_bounds [OF rules b Cons.prems(1), of shares e]
  obtain p where p: "distribution_step b rules (shares, pool) e = (shares @ [p], pool - ps_profit p)"
    "0 \<le> ps_profit p" "ps_profit p \<le> pool" "ps_role p = h_role e"
    by blast
  have "0 \<le> pool - ps_profit p" using p(3) by simp
  moreover have "\<forall>q \<in> set (shares @ [p]). 0 \<le> ps_profit q"
    using Cons.prems(2) p(2) by simp
  ultimately have IH:
    "(\<forall>q \<in> set (fst (foldl (distribution_step b rules) (shares @ [p], pool - ps_profit p) es)).
        0 \<le> ps_profit q)
     \<and> 0 \<le> snd (foldl (distribution_step b rules) (shares @ [p], pool - ps_profit p) es)
     \<and> sum_list (map ps_profit (fst (foldl (distribution_step b rules)
                                       (shares @ [p], pool - ps_profit p) es)))
         + snd (foldl (distribution_step b rules) (shares @ [p], pool - ps_profit p) es)
       = sum_list (map ps_profit (shares @ [p])) + (pool - ps_profit p)
     \<and> map ps_role (fst (foldl (distribution_step b rules) (shares @ [p], pool - ps_profit p) es))
       = map ps_role (shares @ [p]) @ map h_role es"
    by (rule Cons.IH)
  show ?case
    using IH p(4) by (simp add: p(1))
qed

text \<open>
  Claim C5, with the limits named in its instance. When the rule selected for the
  caller's role (the first rule of the list with that role) is a percentage rule,
  \<open>calculatePrice\<close> returns a result whose markup is
  \<open>floor (baseCost * markup_value / 10000)\<close>, raised to \<open>min_profit\<close> when that is set and
  higher, then capped at \<open>max_profit\<close> when that is set and lower; the total is
  \<open>(baseCost + markup) * quantity\<close> and the profit \<open>markup * quantity\<close>. With
  \<open>markup_value = 1000\<close>, \<open>baseCost = 10000\<close> and \<open>quantity = 1\<close> the markup is 1000 and
  the total 11000 whenever \<open>min_profit\<close>, if set, is at most 1000 and \<open>max_profit\<close>, if
  set, is at least 1000.
\<close>

theorem calculatePrice_percentage:
  assumes "find (\<lambda>r. role r = userRole) rules = Some rule"
    and "markupType rule = percentage"
  shows "\<exists>pc. calculatePrice baseCost' rules userRole quantity cur = Inr pc
     \<and> markup pc =
         (let raw = (baseCost' * markupValue rule) div 10000;
              raised = (case minProfit rule of None \<Rightarrow> raw | Some lo \<Rightarrow> max raw lo)
          in (case maxProfit rule of None \<Rightarrow> raised | Some hi \<Rightarrow> min raised hi))
     \<and> totalAmount pc = (baseCost' + markup pc) * quantity
     \<and> profit pc = markup pc * quantity
     \<and> (markupValue rule = 1000 \<and> baseCost' = 10000 \<and> quantity = 1
          \<and> (\<forall>lo. minProfit rule = Some lo \<longrightarrow> lo \<le> 1000)
          \<and> (\<forall>hi. maxProfit rule = Some hi \<longrightarrow> 1000 \<le> hi)
         \<longrightarrow> markup pc = 1000 \<and> totalAmount pc = 11000)"
  using assms
  by (auto simp add: calculatePrice_def apply_limits_def Let_def split: option.splits)

theorem calculatePrice_percentage_witness:
  "find (\<lambda>r. role r = ''reseller'') [sample_rule percentage 1000 None None]
     = Some (sample_rule percentage 1000 None None)
   \<and> markupType (sample_rule percentage 1000 None None) = percentage
   \<and> (\<exists>pc. calculatePrice 10000 [sample_rule percentage 1000 None None] ''reseller'' 1 ''USD'' = Inr pc
         \<and> markup pc = 1000 \<and> totalAmount pc = 11000 \<and> profit pc = 1000)
   \<and> (\<exists>pc. calculatePrice 2000 [sample_rule percentage 1000 (Some 500) None] ''reseller'' 3 ''USD'' = Inr pc
         \<and> markup pc = 500 \<and> totalAmount pc = 7500 \<and> profit pc = 1500)"
proof -
  have f: "find (\<lambda>r. role r = ''reseller'') [sample_rule percentage 1000 None None]
     = Some (sample_rule percentage 1000 None None)"
    "find (\<lambda>r. role r = ''reseller'') [sample_rule percentage 1000 (Some 500) None]
     = Some (sample_rule percentage 1000 (Some 500) None)"
    by (simp_all add: sample_rule_def)
  have t: "markupType (sample_rule percentage 1000 None None) = percentage"
    "markupType (sample_rule percentage 1000 (Some 500) None) = percentage"
    by (simp_all add: sample_rule_def)
  have v: "markupValue (sample_rule percentage 1000 None None) = 1000"
    "minProfit (sample_rule percentage 1000 None None) = None"
    "maxProfit (sample_rule percentage 1000 None None) = None"
    "markupValue (sample_rule percentage 1000 (Some 500) None) = 1000"
    "minProfit (sample_rule percentage 1000 (Some 500) None) = Some 500"
    "maxProfit (sample_rule percentage 1000 (Some 500) None) = None"
    by (simp_all add: sample_rule_def)
  from calculatePrice_percentage [OF f(1) t(1), of 10000 1 "''USD''"]
  have a: "\<exists>pc. calculatePrice 10000 [sample_rule percentage 1000 None None] ''reseller'' 1 ''USD'' = Inr pc
         \<and> markup pc = 1000 \<and> totalAmount pc = 11000 \<and> profit pc = 1000"
    unfolding v by (auto simp add: Let_def)
  from calculatePrice_percentage [OF f(2) t(2), of 2000 3 "''USD''"]
  have b: "\<exists>pc. calculatePrice 2000 [sample_rule percentage 1000 (Some 500) None] ''reseller'' 3 ''USD'' = Inr pc
         \<and> markup pc = 500 \<and> totalAmount pc = 7500 \<and> profit pc = 1500"
    unfolding v by (auto simp add: Let_def)
  from f(1) t(1) a b show ?thesis by blast
qed

text \<open>
  Without the condition on the limits the instance fails: a percentage rule of 1000
  basis points with \<open>min_profit = 2000\<close> is accepted by \<open>validateRule\<close>, and on a base
  cost of 10000 and quantity 1 the markup is 2000 and the total 12000.
\<close>

theorem calculatePrice_percentage_counterexample:
  "rule_valid (fst (validateRule (sample_rule percentage 1000 (Some 2000) None)))
   \<and> markupType (sample_rule percentage 1000 (Some 2000) None) = percentage
   \<and> markupValue (sample_rule percentage 1000 (Some 2000) None) = 1000
   \<and> calculatePrice 10000 [sample_rule percentage 1000 (Some 2000) None] ''reseller'' 1 ''USD''
       = Inr \<lparr> baseCost = 10000, markup = 2000, totalAmount = 12000, profit = 2000,
               pc_currency = ''USD'',
               appliedRule = Some (sample_rule percentage 1000 (Some 2000) None) \<rparr>"
  by (simp add: validateRule_def rule_error_list_def calculatePrice_def apply_limits_def
        sample_rule_def)

text \<open>
  Claim C6, with the limits the validation leaves open. Let every rule of the list be
  accepted by \<open>validateRule\<close>, let every \<open>max_profit\<close> that is set be non-negative, and
  let the tier markup values of every tiered rule be non-negative. Then for every
  non-negative \<open>baseCost\<close>, every quantity and every role, \<open>calculatePrice\<close> returns a
  result whose markup is at least 0, on the rules as given and on the rules as
  \<open>validateRule\<close> leaves them (tiers sorted).
\<close>

theorem validated_markup_nonneg:
  assumes "\<forall>r \<in> set rules. rule_valid (fst (validateRule r))"
    and "\<forall>r \<in> set rules. \<forall>hi. maxProfit r = Some hi \<longrightarrow> 0 \<le> hi"
    and "\<forall>r \<in> set rules. markupType r = tiered \<longrightarrow>
           (\<forall>tc. tierConfig r = Some tc \<longrightarrow> (\<forall>t \<in> set (tiers tc). 0 \<le> tier_markupValue t))"
    and "0 \<le> baseCost'"
  shows "(\<exists>pc. calculatePrice baseCost' rules userRole quantity cur = Inr pc \<and> 0 \<le> markup pc)
       \<and> (\<exists>pc. calculatePrice baseCost' (map (\<lambda>r. snd (validateRule r)) rules) userRole quantity cur
                  = Inr pc \<and> 0 \<le> markup pc)"
proof
  have "\<forall>r \<in> set rules.
        0 \<le> markupValue r \<and> (\<forall>hi. maxProfit r = Some hi \<longrightarrow> 0 \<le> hi)
        \<and> (markupType r = tiered \<longrightarrow>
             (\<forall>tc. tierConfig r = Some tc \<longrightarrow>
                tiers tc \<noteq> [] \<and> (\<forall>t \<in> set (tiers tc). 0 \<le> tier_markupValue t)))"
    using assms(1-3) validateRule_accepts by fastforce
  then show "\<exists>pc. calculatePrice baseCost' rules userRole quantity cur = Inr pc \<and> 0 \<le> markup pc"
    using assms(4) by (rule calculatePrice_nonneg)
next
  have "0 \<le> markupValue r' \<and> (\<forall>hi. maxProfit r' = Some hi \<longrightarrow> 0 \<le> hi)
        \<and> (markupType r' = tiered \<longrightarrow>
             (\<forall>tc. tierConfig r' = Some tc \<longrightarrow>
                tiers tc \<noteq> [] \<and> (\<forall>t \<in> set (tiers tc). 0 \<le> tier_markupValue t)))"
    if "r' \<in> set (map (\<lambda>r. snd (validateRule r)) rules)" for r'
  proof -
    from that obtain r where r: "r \<in> set rules" "r' = snd (validateRule r)" by auto
    have v: "rule_valid (fst (validateRule r))" using assms(1) r(1) by blast
    have "tiers tc' \<noteq> [] \<and> (\<forall>t \<in> set (tiers tc'). 0 \<le> tier_markupValue t)"
      if "markupType r' = tiered" "tierConfig r' = Some tc'" for tc'
    proof -
      from that r(2) have ty: "markupType r = tiered" by (simp add: validateRule_rule_after)
      from that(2) r(2) obtain tc where tc: "tierConfig r = Some tc" "set (tiers tc') = set (tiers tc)"
        using validateRule_rule_after(4) by blast
      from validateRule_accepts(2) [OF v ty] tc(1) have "tiers tc \<noteq> []" by simp
      with tc(2) have "tiers tc' \<noteq> []" by (metis set_empty)
      moreover from assms(3) r(1) ty tc have "\<forall>t \<in> set (tiers tc'). 0 \<le> tier_markupValue t"
        by blast
      ultimately show ?thesis by blast
    qed
    with validateRule_accepts(1) [OF v] assms(2) r show ?thesis
      by (simp add: validateRule_rule_after)
  qed
  then show "\<exists>pc. calculatePrice baseCost' (map (\<lambda>r. snd (validateRule r)) rules) userRole quantity cur
                  = Inr pc \<and> 0 \<le> markup pc"
    using assms(4) calculatePrice_nonneg by blast
qed

theorem validated_markup_nonneg_witness:
  "rule_valid (fst (validateRule sample_tiered_rule))
   \<and> maxProfit sample_tiered_rule = Some 5000
   \<and> (\<exists>pc. calculatePrice 10000 [sample_tiered_rule] ''reseller'' 5 ''USD'' = Inr pc
         \<and> 0 \<le> markup pc)
   \<and> (\<exists>pc. calculatePrice 10000 (map (\<lambda>r. snd (validateRule r)) [sample_tiered_rule])
               ''reseller'' 5 ''USD'' = Inr pc
         \<and> 0 \<le> markup pc)"
proof -
  have v: "\<forall>r \<in> set [sample_tiered_rule]. rule_valid (fst (validateRule r))"
    by (simp add: validateRule_def rule_error_list_def sample_tiered_rule_def)
  have m: "\<forall>r \<in> set [sample_tiered_rule]. \<forall>hi. maxProfit r = Some hi \<longrightarrow> 0 \<le> hi"
    by (simp add: sample_tiered_rule_def)
  have t: "\<forall>r \<in> set [sample_tiered_rule]. markupType r = tiered \<longrightarrow>
           (\<forall>tc. tierConfig r = Some tc \<longrightarrow> (\<forall>t \<in> set (tiers tc). 0 \<le> tier_markupValue t))"
    by (auto simp add: sample_tiered_rule_def)
  have b: "(0::int) \<le> 10000" by simp
  have x: "maxProfit sample_tiered_rule = Some 5000"
    by (simp add: sample_tiered_rule_def)
  from validated_markup_nonneg [OF v m t b, of "''reseller''" 5 "''USD''"] v x
  show ?thesis by simp
qed

text \<open>
  Acceptance by \<open>validateRule\<close> alone is not enough: it looks neither at the sign of
  \<open>max_profit\<close> nor at the tier markup values. A fixed rule with markup 100 and
  \<open>max_profit = -50\<close> is accepted and yields the markup \<open>-50\<close>; a tiered rule whose only
  tier has the markup value \<open>-500\<close> is accepted and yields \<open>-500\<close> on a base cost of
  10000.
\<close>

theorem validated_markup_counterexample:
  "rule_valid (fst (validateRule (sample_rule fixed 100 None (Some (- 50)))))
   \<and> calculatePrice 1000 [sample_rule fixed 100 None (Some (- 50))] ''reseller'' 1 ''USD''
       = Inr \<lparr> baseCost = 1000, markup = - 50, totalAmount = 950, profit = - 50,
               pc_currency = ''USD'',
               appliedRule = Some (sample_rule fixed 100 None (Some (- 50))) \<rparr>
   \<and> rule_valid (fst (validateRule
         (sample_tiered_rule\<lparr> maxProfit := None, tierConfig := Some \<lparr> tiers =
            [\<lparr> minQuantity = 1, maxQuantity = None, tier_markupValue = - 500 \<rparr>] \<rparr> \<rparr>)))
   \<and> calculatePrice 10000
         [sample_tiered_rule\<lparr> maxProfit := None, tierConfig := Some \<lparr> tiers =
            [\<lparr> minQuantity = 1, maxQuantity = None, tier_markupValue = - 500 \<rparr>] \<rparr> \<rparr>]
         ''reseller'' 1 ''USD''
       = Inr \<lparr> baseCost = 10000, markup = - 500, totalAmount = 9500, profit = - 500,
               pc_currency = ''USD'',
               appliedRule = Some (sample_tiered_rule\<lparr> maxProfit := None,
                 tierConfig := Some \<lparr> tiers =
                   [\<lparr> minQuantity = 1, maxQuantity = None, tier_markupValue = - 500 \<rparr>] \<rparr> \<rparr>) \<rparr>"
  by (simp add: validateRule_def rule_error_list_def calculatePrice_def apply_limits_def
        calculateTieredMarkup_def sample_rule_def sample_tiered_rule_def)

text \<open>
  Claim C9, for a base cost that is not negative. Let \<open>0 \<le> baseCost \<le> finalPrice\<close> and
  let the markup values, \<open>min_profit\<close> and \<open>max_profit\<close> of all rules be non-negative.
  Then every profit returned by \<open>calculateProfitDistribution\<close> is at least 0, their sum
  is at most \<open>finalPrice - baseCost\<close>, and the result lists the roles of the hierarchy in
  their order.
\<close>

theorem profit_distribution_bounded:
  assumes "0 \<le> baseCost'" and "baseCost' \<le> finalPrice"
    and "\<forall>r \<in> set rules. 0 \<le> markupValue r
           \<and> (\<forall>lo. minProfit r = Some lo \<longrightarrow> 0 \<le> lo)
           \<and> (\<forall>hi. maxProfit r = Some hi \<longrightarrow> 0 \<le> hi)"
  shows "(\<forall>p \<in> set (calculateProfitDistribution baseCost' finalPrice roleHierarchy rules).
            0 \<le> ps_profit p)
       \<and> sum_list (map ps_profit (calculateProfitDistribution baseCost' finalPrice roleHierarchy rules))
           \<le> finalPrice - baseCost'
       \<and> map ps_role (calculateProfitDistribution baseCost' finalPrice roleHierarchy rules)
           = map h_role roleHierarchy"
proof -
  have "0 \<le> finalPrice - baseCost'" using assms(2) by simp
  from distribution_fold_bounds [OF assms(3) assms(1) this, of "[]" "rev roleHierarchy"]
  show ?thesis
    by (simp add: calculateProfitDistribution_def rev_map [symmetric])
qed

theorem profit_distribution_bounded_witness:
  "(0::int) \<le> 10000 \<and> (10000::int) \<le> 10800
   \<and> calculateProfitDistribution 10000 10800
        [\<lparr> h_role = ''admin'', h_userId = ''u0'' \<rparr>, \<lparr> h_role = ''reseller'', h_userId = ''u1'' \<rparr>]
        [sample_rule percentage 500 None None,
         (sample_rule fixed 700 None None)\<lparr> role := ''admin'' \<rparr>]
      = [\<lparr> ps_userId = ''u0'', ps_role = ''admin'', ps_profit = 300 \<rparr>,
         \<lparr> ps_userId = ''u1'', ps_role = ''reseller'', ps_profit = 500 \<rparr>]
   \<and> sum_list (map ps_profit (calculateProfitDistribution 10000 10800
        [\<lparr> h_role = ''admin'', h_userId = ''u0'' \<rparr>, \<lparr> h_role = ''reseller'', h_userId = ''u1'' \<rparr>]
        [sample_rule percentage 500 None None,
         (sample_rule fixed 700 None None)\<lparr> role := ''admin'' \<rparr>])) \<le> 10800 - 10000"
proof -
  have h1: "(0::int) \<le> 10000" and h2: "(10000::int) \<le> 10800" by simp_all
  have h3: "\<forall>r \<in> set [sample_rule percentage 500 None None,
                         (sample_rule fixed 700 None None)\<lparr> role := ''admin'' \<rparr>].
              0 \<le> markupValue r
              \<and> (\<forall>lo. minProfit r = Some lo \<longrightarrow> 0 \<le> lo)
              \<and> (\<forall>hi. maxProfit r = Some hi \<longrightarrow> 0 \<le> hi)"
    by (simp add: sample_rule_def)
  have c: "calculateProfitDistribution 10000 10800
        [\<lparr> h_role = ''admin'', h_userId = ''u0'' \<rparr>, \<lparr> h_role = ''reseller'', h_userId = ''u1'' \<rparr>]
        [sample_rule percentage 500 None None,
         (sample_rule fixed 700 None None)\<lparr> role := ''admin'' \<rparr>]
      = [\<lparr> ps_userId = ''u0'', ps_role = ''admin'', ps_profit = 300 \<rparr>,
         \<lparr> ps_userId = ''u1'', ps_role = ''reseller'', ps_profit = 500 \<rparr>]"
    by (simp add: calculateProfitDistribution_def distribution_step_def sample_rule_def)
  from profit_distribution_bounded [OF h1 h2 h3,
      of "[\<lparr> h_role = ''admin'', h_userId = ''u0'' \<rparr>, \<lparr> h_role = ''reseller'', h_userId = ''u1'' \<rparr>]"]
  show ?thesis using c by simp
qed

text \<open>
  With a negative base cost the percentage share is negative: for \<open>baseCost = -10000\<close>,
  \<open>finalPrice = 0\<close> and a 10% rule without limits the one role receives \<open>-1000\<close>.
\<close>

theorem profit_distribution_counterexample:
  "(0::int) \<ge> - 10000
   \<and> calculateProfitDistribution (- 10000) 0 [\<lparr> h_role = ''reseller'', h_userId = ''u1'' \<rparr>]
        [sample_rule percentage 1000 None None]
      = [\<lparr> ps_userId = ''u1'', ps_role = ''reseller'', ps_profit = - 1000 \<rparr>]"
  by (simp add: calculateProfitDistribution_def distribution_step_def sample_rule_def)

section \<open>Properties of the schema validator\<close>

lemma bind_err_Inr:
  "bind_err m f = Inr y \<longleftrightarrow> (\<exists>x. m = Inr x \<and> f x = Inr y)"
  by (cases m) (simp_all add: bind_err_def)

lemma bind_err_simps:
  "bind_err (Inr x) f = f x" "bind_err (Inl e) f = Inl e"
  by (simp_all add: bind_err_def)

lemma js_Number_total:
  "(\<forall>r. v = JOther r \<longrightarrow> (\<exists>n. OtherToNumber R r = Inr n)) \<Longrightarrow> \<exists>n. js_Number R v = Inr n"
  by (cases v) auto

lemma js_String_total:
  "(\<forall>r. v = JOther r \<longrightarrow> (\<exists>s. OtherToString R r = Inr s)) \<Longrightarrow> \<exists>s. js_String R v = Inr s"
  by (cases v) auto

lemma rule_checks_total:
  assumes pat: "\<forall>p. pattern v = Some p \<longrightarrow> RegExp R p \<noteq> None"
    and num: "\<exists>n. js_Number R val = Inr n" and str: "\<exists>s. js_String R val = Inr s"
  shows "\<exists>es. rule_checks R field v val = Inr es"
proof -
  have a: "\<exists>e. pattern_rule R field v val = Inr e"
    using pat by (auto simp add: pattern_rule_def split: option.splits jsval.splits)
  have b: "\<exists>e. min_rule R field v val = Inr e" "\<exists>e. max_rule R field v val = Inr e"
    using num by (auto simp add: min_rule_def max_rule_def bind_err_simps split: option.splits)
  have c: "\<exists>e. options_rule R field v val = Inr e"
    using str by (auto simp add: options_rule_def bind_err_simps split: option.splits)
  from a b c show ?thesis
    by (auto simp add: rule_checks_def bind_err_simps)
qed

lemma type_check_total:
  assumes "\<exists>n. js_Number R val = Inr n"
  shows "\<exists>p. type_check R field val = Inr p"
  using assms
  by (cases "field_type field")
     (auto simp add: type_check_def bind_err_simps split: jsval.splits)

lemma field_check_total:
  assumes pat: "\<forall>v p. validation field = Some v \<longrightarrow> pattern v = Some p \<longrightarrow> RegExp R p \<noteq> None"
    and coer: "\<forall>r. val = JOther r \<longrightarrow>
                 (\<exists>n. OtherToNumber R r = Inr n) \<and> (\<exists>s. OtherToString R r = Inr s)"
  shows "\<exists>p. field_check R field val = Inr p"
proof -
  have num: "\<exists>n. js_Number R val = Inr n" using coer by (intro js_Number_total) blast
  have str: "\<exists>s. js_String R val = Inr s" using coer by (intro js_String_total) blast
  obtain te st where tc: "type_check R field val = Inr (te, st)"
    using type_check_total [OF num, of field] by force
  have "\<exists>more. (case validation field of
                    None \<Rightarrow> Inr []
                  | Some v \<Rightarrow> if te = [] then rule_checks R field v val else Inr []) = Inr more"
  proof (cases "validation field")
    case None
    then show ?thesis by simp
  next
    case (Some v)
    with pat have "\<forall>p. pattern v = Some p \<longrightarrow> RegExp R p \<noteq> None" by blast
    from rule_checks_total [OF this num str, of field] Some show ?thesis by auto
  qed
  then show ?thesis
    by (auto simp add: field_check_def tc bind_err_simps)
qed

lemma field_check_normalized:
  "field_check R field val = Inr (fe, Some d) \<Longrightarrow> normalized R field val = Some d"
  by (cases "field_type field")
     (auto simp add: field_check_def type_check_def normalized_def bind_err_Inr
           split: if_splits jsval.splits prod.splits)

lemma validate_step_Inr:
  "validate_step R inp (errs, dat) f = Inr acc' \<longleftrightarrow>
     (\<exists>fe st. field_check R f (inp (name f)) = Inr (fe, st)
        \<and> acc' = (if fe = [] then errs else obj_assign (name f) fe errs,
                  (case st of None \<Rightarrow> dat | Some v \<Rightarrow> obj_assign (name f) v dat)))"
  by (auto simp add: validate_step_def bind_err_Inr)

lemma obj_assign_keys:
  "k \<noteq> ''__proto__'' \<Longrightarrow> fst ` set (obj_assign k v obj) = {k} \<union> fst ` set obj"
  by (simp add: obj_assign_def dom_update)

lemma in_set_obj_assign:
  "p \<in> set (obj_assign k v obj) \<Longrightarrow> p = (k, v) \<or> p \<in> set obj"
proof -
  have "p \<in> set (AList.update k v al) \<Longrightarrow> p = (k, v) \<or> p \<in> set al" for al
    by (induction al) (auto split: if_splits)
  then show "p \<in> set (obj_assign k v obj) \<Longrightarrow> p = (k, v) \<or> p \<in> set obj"
    by (auto simp add: obj_assign_def split: if_splits)
qed

lemma validate_loop_total:
  "\<forall>f \<in> set fs. \<exists>p. field_check R f (inp (name f)) = Inr p \<Longrightarrow>
   \<exists>acc'. validate_loop R inp acc fs = Inr acc'"
proof (induction fs arbitrary: acc)
  case Nil
  show ?case by simp
next
  case (Cons f fs)
  obtain errs dat where acc: "acc = (errs, dat)" by (cases acc)
  from Cons.prems obtain fe st where "field_check R f (inp (name f)) = Inr (fe, st)" by force
  then obtain acc1 where "validate_step R inp acc f = Inr acc1"
    unfolding acc validate_step_Inr by blast
  moreover from Cons.prems have "\<exists>acc'. validate_loop R inp acc1 fs = Inr acc'"
    by (intro Cons.IH) simp
  ultimately show ?case by simp
qed

lemma validate_loop_keys:
  "\<forall>f \<in> set fs. name f \<noteq> ''__proto__'' \<Longrightarrow>
   validate_loop R inp (errs, dat) fs = Inr (errs', dat') \<Longrightarrow>
   fst ` set errs' =
           fst ` set errs
           \<union> {name f | f. f \<in> set fs
                 \<and> (\<exists>fe st. field_check R f (inp (name f)) = Inr (fe, st) \<and> fe \<noteq> [])}
   \<and> fst ` set dat' =
           fst ` set dat
           \<union> {name f | f. f \<in> set fs
                 \<and> (\<exists>fe v. field_check R f (inp (name f)) = Inr (fe, Some v))}"
proof (induction fs arbitrary: errs dat)
  case Nil
  then show ?case by simp
next
  case (Cons f fs)
  from Cons.prems(2) obtain acc1 where
    s: "validate_step R inp (errs, dat) f = Inr acc1" and
    l: "validate_loop R inp acc1 fs = Inr (errs', dat')"
    by (auto split: sum.splits)
  from s obtain fe st where
    fc: "field_check R f (inp (name f)) = Inr (fe, st)" and
    a1: "acc1 = (if fe = [] then errs else obj_assign (name f) fe errs,
                 (case st of None \<Rightarrow> dat | Some v \<Rightarrow> obj_assign (name f) v dat))"
    unfolding validate_step_Inr by blast
  have nm: "name f \<noteq> ''__proto__''" and rest: "\<forall>g \<in> set fs. name g \<noteq> ''__proto__''"
    using Cons.prems(1) by simp_all
  from Cons.IH [OF rest l [unfolded a1]]
  show ?case using fc nm by (auto simp add: obj_assign_keys split: option.splits)
qed

lemma validate_loop_entries:
  "validate_loop R inp (errs, dat) fs = Inr (errs', dat') \<Longrightarrow>
   (\<forall>k m. (k, m) \<in> set errs' \<longrightarrow> (k, m) \<in> set errs
           \<or> (\<exists>f \<in> set fs. name f = k \<and> m \<noteq> []
                 \<and> (\<exists>st. field_check R f (inp k) = Inr (m, st))))
   \<and> (\<forall>k v. (k, v) \<in> set dat' \<longrightarrow> (k, v) \<in> set dat
           \<or> (\<exists>f \<in> set fs. name f = k \<and> (\<exists>fe. field_check R f (inp k) = Inr (fe, Some v))))"
proof (induction fs arbitrary: errs dat)
  case Nil
  then show ?case by auto
next
  case (Cons f fs)
  from Cons.prems(1) obtain acc1 where
    s: "validate_step R inp (errs, dat) f = Inr acc1" and
    l: "validate_loop R inp acc1 fs = Inr (errs', dat')"
    by (auto split: sum.splits)
  from s obtain fe st where
    fc: "field_check R f (inp (name f)) = Inr (fe, st)" and
    a1: "acc1 = (if fe = [] then errs else obj_assign (name f) fe errs,
                 (case st of None \<Rightarrow> dat | Some v \<Rightarrow> obj_assign (name f) v dat))"
    unfolding validate_step_Inr by blast
  note IH = Cons.IH [OF l [unfolded a1]]
  show ?case
  proof (intro conjI allI impI)
    fix k m assume "(k, m) \<in> set errs'"
    with IH have "(k, m) \<in> set (if fe = [] then errs else obj_assign (name f) fe errs)
           \<or> (\<exists>g \<in> set fs. name g = k \<and> m \<noteq> []
                 \<and> (\<exists>st. field_check R g (inp k) = Inr (m, st)))"
      by blast
    then show "(k, m) \<in> set errs
           \<or> (\<exists>g \<in> set (f # fs). name g = k \<and> m \<noteq> []
                 \<and> (\<exists>st. field_check R g (inp k) = Inr (m, st)))"
    proof
      assume "(k, m) \<in> set (if fe = [] then errs else obj_assign (name f) fe errs)"
      then have "(k, m) \<in> set errs \<or> (fe \<noteq> [] \<and> (k, m) = (name f, fe))"
        by (auto dest: in_set_obj_assign split: if_splits)
      with fc show ?thesis by auto
    next
      assume "\<exists>g \<in> set fs. name g = k \<and> m \<noteq> []
                 \<and> (\<exists>st. field_check R g (inp k) = Inr (m, st))"
      then show ?thesis by auto
    qed
  next
    fix k v assume "(k, v) \<in> set dat'"
    with IH have "(k, v) \<in> set (case st of None \<Rightarrow> dat | Some v \<Rightarrow> obj_assign (name f) v dat)
           \<or> (\<exists>g \<in> set fs. name g = k \<and> (\<exists>fe. field_check R g (inp k) = Inr (fe, Some v)))"
      by blast
    then show "(k, v) \<in> set dat
           \<or> (\<exists>g \<in> set (f # fs). name g = k
                 \<and> (\<exists>fe. field_check R g (inp k) = Inr (fe, Some v)))"
    proof
      assume "(k, v) \<in> set (case st of None \<Rightarrow> dat | Some v \<Rightarrow> obj_assign (name f) v dat)"
      then have "(k, v) \<in> set dat \<or> (st = Some v \<and> k = name f)"
        by (auto dest: in_set_obj_assign split: option.splits)
      with fc show ?thesis by auto
    next
      assume "\<exists>g \<in> set fs. name g = k \<and> (\<exists>fe. field_check R g (inp k) = Inr (fe, Some v))"
      then show ?thesis by auto
    qed
  qed
qed

lemma field_check_clean_stored:
  "field_check R field val = Inr ([], st) \<Longrightarrow> (st = None \<longleftrightarrow> is_blank val)"
  by (cases "field_type field")
     (auto simp add: field_check_def type_check_def bind_err_Inr
           split: if_splits jsval.splits prod.splits)

lemma validate_Inr:
  "validate R schema inp = Inr res \<longleftrightarrow>
     (\<exists>errs dat. validate_loop R inp ([], []) (schema_fields schema) = Inr (errs, dat)
        \<and> res = \<lparr> valid = (errs = []),
                   errors = (if errs = [] then None else Some errs),
                   data = (if errs = [] then Some dat else None) \<rparr>)"
  by (auto simp add: validate_def split: sum.splits)

lemma imei_short:
  assumes "RegExp R ''^[0-9]{15}$'' = Some test" and "\<not> test ''12345''"
  shows "validate R exampleIMEISchema (imei_input ''12345'') =
     Inr \<lparr> valid = False,
           errors = Some [(''imei'',
              [''IMEI Number format is invalid'',
               ''IMEI Number must be at least '' @ NumberToString R (Finite 15) @ '' characters''])],
           data = None \<rparr>"
  using assms
  by (simp add: validate_def exampleIMEISchema_def validate_step_def field_check_def
        type_check_def rule_checks_def pattern_rule_def length_rules_def min_rule_def
        max_rule_def options_rule_def bind_err_simps obj_assign_def truthy_num_def
        imei_input_def is_blank_def)

lemma imei_full:
  assumes "RegExp R ''^[0-9]{15}$'' = Some test" and "test ''123456789012345''"
  shows "validate R exampleIMEISchema (imei_input ''123456789012345'') =
     Inr \<lparr> valid = True, errors = None,
           data = Some [(''imei'', JString ''123456789012345'')] \<rparr>"
  using assms
  by (simp add: validate_def exampleIMEISchema_def validate_step_def field_check_def
        type_check_def rule_checks_def pattern_rule_def length_rules_def min_rule_def
        max_rule_def options_rule_def bind_err_simps obj_assign_def truthy_num_def
        imei_input_def is_blank_def)

text \<open>
  Claim C8, for the schemas and inputs on which \<open>validate\<close> returns. Let no field of the
  schema be named \<open>__proto__\<close>, let every pattern of the schema be a well-formed regular
  expression, and let the coercion of the input values not throw. Then \<open>validate\<close>
  returns a result. It has \<open>valid = true\<close> exactly when no declared field produces an
  error; then it has no errors and a data object whose keys are the declared fields that
  are not blank in the input, each entry the normalized value of a declared field of
  that name. Otherwise it has no data and an errors object whose keys are exactly the
  names of the fields that produced an error, each entry the non-empty message list of
  a declared field of that name: the loop goes through all fields and does not stop at
  the first failure. On the IMEI schema of the source, when the pattern \<open>^[0-9]{15}$\<close>
  matches fifteen digits and not \<open>12345\<close>, the input \<open>{imei: "12345"}\<close> is invalid with
  the format error under \<open>imei\<close>, and the input \<open>{imei: "123456789012345"}\<close> is valid.
\<close>

theorem validate_collects_all_errors:
  assumes names: "\<forall>f \<in> set (schema_fields schema). name f \<noteq> ''__proto__''"
    and pats: "\<forall>f \<in> set (schema_fields schema).
                 \<forall>v p. validation f = Some v \<longrightarrow> pattern v = Some p \<longrightarrow> RegExp R p \<noteq> None"
    and coer: "\<forall>f \<in> set (schema_fields schema).
                 \<forall>r. inp (name f) = JOther r \<longrightarrow>
                   (\<exists>n. OtherToNumber R r = Inr n) \<and> (\<exists>s. OtherToString R r = Inr s)"
  shows "(\<exists>res. validate R schema inp = Inr res
      \<and> (valid res \<longleftrightarrow>
           (\<forall>f \<in> set (schema_fields schema). \<exists>st. field_check R f (inp (name f)) = Inr ([], st)))
      \<and> (valid res \<longrightarrow>
           errors res = None
           \<and> (\<exists>d. data res = Some d
                 \<and> fst ` set d = {name f | f. f \<in> set (schema_fields schema)
                                              \<and> \<not> is_blank (inp (name f))}
                 \<and> (\<forall>(k, v) \<in> set d. \<exists>f \<in> set (schema_fields schema).
                        name f = k \<and> normalized R f (inp k) = Some v)))
      \<and> (\<not> valid res \<longrightarrow>
           data res = None
           \<and> (\<exists>em. errors res = Some em
                 \<and> fst ` set em =
                     {name f | f. f \<in> set (schema_fields schema)
                        \<and> (\<exists>fe st. field_check R f (inp (name f)) = Inr (fe, st) \<and> fe \<noteq> [])}
                 \<and> (\<forall>(k, m) \<in> set em. m \<noteq> []
                        \<and> (\<exists>f \<in> set (schema_fields schema). name f = k
                              \<and> (\<exists>st. field_check R f (inp k) = Inr (m, st)))))))
   \<and> (\<forall>test. RegExp R ''^[0-9]{15}$'' = Some test \<and> test ''123456789012345'' \<and> \<not> test ''12345''
        \<longrightarrow> validate R exampleIMEISchema (imei_input ''12345'') =
              Inr \<lparr> valid = False,
                    errors = Some [(''imei'',
                       [''IMEI Number format is invalid'',
                        ''IMEI Number must be at least '' @ NumberToString R (Finite 15)
                          @ '' characters''])],
                    data = None \<rparr>
            \<and> validate R exampleIMEISchema (imei_input ''123456789012345'') =
              Inr \<lparr> valid = True, errors = None,
                    data = Some [(''imei'', JString ''123456789012345'')] \<rparr>)"
proof
  let ?fs = "schema_fields schema"
  have total: "\<forall>f \<in> set ?fs. \<exists>p. field_check R f (inp (name f)) = Inr p"
  proof
    fix f assume f: "f \<in> set ?fs"
    from pats f have p: "\<forall>v p. validation f = Some v \<longrightarrow> pattern v = Some p \<longrightarrow> RegExp R p \<noteq> None"
      by (rule bspec)
    from coer f have c: "\<forall>r. inp (name f) = JOther r \<longrightarrow>
                   (\<exists>n. OtherToNumber R r = Inr n) \<and> (\<exists>s. OtherToString R r = Inr s)"
      by (rule bspec)
    from p c show "\<exists>p. field_check R f (inp (name f)) = Inr p"
      by (rule field_check_total)
  qed
  then obtain errs dat where loop: "validate_loop R inp ([], []) ?fs = Inr (errs, dat)"
    using validate_loop_total [of ?fs R inp "([], [])"] by force
  define res where "res = \<lparr> valid = (errs = []),
                   errors = (if errs = [] then None else Some errs),
                   data = (if errs = [] then Some dat else None) \<rparr>"
  have res: "validate R schema inp = Inr res"
    unfolding validate_Inr res_def using loop by blast
  from validate_loop_keys [OF names loop]
  have ekeys: "fst ` set errs =
                 {name f | f. f \<in> set ?fs
                    \<and> (\<exists>fe st. field_check R f (inp (name f)) = Inr (fe, st) \<and> fe \<noteq> [])}"
    and dkeys: "fst ` set dat =
                 {name f | f. f \<in> set ?fs
                    \<and> (\<exists>fe v. field_check R f (inp (name f)) = Inr (fe, Some v))}"
    by simp_all
  from validate_loop_entries [OF loop]
  have E: "\<And>k m. (k, m) \<in> set errs \<Longrightarrow>
             \<exists>f \<in> set ?fs. name f = k \<and> m \<noteq> [] \<and> (\<exists>st. field_check R f (inp k) = Inr (m, st))"
    and D: "\<And>k v. (k, v) \<in> set dat \<Longrightarrow>
             \<exists>f \<in> set ?fs. name f = k \<and> (\<exists>fe. field_check R f (inp k) = Inr (fe, Some v))"
    by simp_all
  have eent: "\<forall>(k, m) \<in> set errs. m \<noteq> []
                \<and> (\<exists>f \<in> set ?fs. name f = k \<and> (\<exists>st. field_check R f (inp k) = Inr (m, st)))"
  proof (clarify)
    fix k m assume "(k, m) \<in> set errs"
    from E [OF this]
    show "m \<noteq> [] \<and> (\<exists>f \<in> set ?fs. name f = k \<and> (\<exists>st. field_check R f (inp k) = Inr (m, st)))"
      by blast
  qed
  have dnorm: "\<forall>(k, v) \<in> set dat. \<exists>f \<in> set ?fs. name f = k \<and> normalized R f (inp k) = Some v"
  proof (clarify)
    fix k v assume "(k, v) \<in> set dat"
    from D [OF this] obtain f fe where "f \<in> set ?fs" "name f = k"
      "field_check R f (inp k) = Inr (fe, Some v)"
      by blast
    then show "\<exists>f \<in> set ?fs. name f = k \<and> normalized R f (inp k) = Some v"
      using field_check_normalized by blast
  qed
  have clean: "errs = [] \<longleftrightarrow>
                 (\<forall>f \<in> set ?fs. \<exists>st. field_check R f (inp (name f)) = Inr ([], st))"
  proof
    assume "errs = []"
    with ekeys have "{name f | f. f \<in> set ?fs
                    \<and> (\<exists>fe st. field_check R f (inp (name f)) = Inr (fe, st) \<and> fe \<noteq> [])} = {}"
      by simp
    then have none: "\<And>f fe st. f \<in> set ?fs \<Longrightarrow>
        field_check R f (inp (name f)) = Inr (fe, st) \<Longrightarrow> fe = []"
      by blast
    show "\<forall>f \<in> set ?fs. \<exists>st. field_check R f (inp (name f)) = Inr ([], st)"
    proof
      fix f assume f: "f \<in> set ?fs"
      with total obtain fe st where "field_check R f (inp (name f)) = Inr (fe, st)" by force
      with none [OF f this] show "\<exists>st. field_check R f (inp (name f)) = Inr ([], st)" by blast
    qed
  next
    assume a: "\<forall>f \<in> set ?fs. \<exists>st. field_check R f (inp (name f)) = Inr ([], st)"
    have "{name f | f. f \<in> set ?fs
             \<and> (\<exists>fe st. field_check R f (inp (name f)) = Inr (fe, st) \<and> fe \<noteq> [])} = {}"
    proof -
      have "\<not> (\<exists>fe st. field_check R f (inp (name f)) = Inr (fe, st) \<and> fe \<noteq> [])"
        if "f \<in> set ?fs" for f
      proof -
        from a that obtain st where "field_check R f (inp (name f)) = Inr ([], st)" by blast
        then show ?thesis by simp
      qed
      then show ?thesis by blast
    qed
    with ekeys have "fst ` set errs = {}" by simp
    then show "errs = []" by simp
  qed
  have dkeys': "fst ` set dat = {name f | f. f \<in> set ?fs \<and> \<not> is_blank (inp (name f))}"
    if "errs = []"
  proof -
    from that clean have c: "\<forall>f \<in> set ?fs. \<exists>st. field_check R f (inp (name f)) = Inr ([], st)"
      by simp
    have "(\<exists>fe v. field_check R f (inp (name f)) = Inr (fe, Some v))
            \<longleftrightarrow> \<not> is_blank (inp (name f))" if "f \<in> set ?fs" for f
    proof -
      from c that obtain st where st: "field_check R f (inp (name f)) = Inr ([], st)" by blast
      from field_check_clean_stored [OF st] st show ?thesis by (cases st) auto
    qed
    then have "{name f | f. f \<in> set ?fs
                    \<and> (\<exists>fe v. field_check R f (inp (name f)) = Inr (fe, Some v))}
               = {name f | f. f \<in> set ?fs \<and> \<not> is_blank (inp (name f))}"
      by blast
    with dkeys show ?thesis by simp
  qed
  show "\<exists>res. validate R schema inp = Inr res
      \<and> (valid res \<longleftrightarrow>
           (\<forall>f \<in> set (schema_fields schema). \<exists>st. field_check R f (inp (name f)) = Inr ([], st)))
      \<and> (valid res \<longrightarrow>
           errors res = None
           \<and> (\<exists>d. data res = Some d
                 \<and> fst ` set d = {name f | f. f \<in> set (schema_fields schema)
                                              \<and> \<not> is_blank (inp (name f))}
                 \<and> (\<forall>(k, v) \<in> set d. \<exists>f \<in> set (schema_fields schema).
                        name f = k \<and> normalized R f (inp k) = Some v)))
      \<and> (\<not> valid res \<longrightarrow>
           data res = None
           \<and> (\<exists>em. errors res = Some em
                 \<and> fst ` set em =
                     {name f | f. f \<in> set (schema_fields schema)
                        \<and> (\<exists>fe st. field_check R f (inp (name f)) = Inr (fe, st) \<and> fe \<noteq> [])}
                 \<and> (\<forall>(k, m) \<in> set em. m \<noteq> []
                        \<and> (\<exists>f \<in> set (schema_fields schema). name f = k
                              \<and> (\<exists>st. field_check R f (inp k) = Inr (m, st))))))"
  proof (intro exI [of _ res] conjI)
    show "validate R schema inp = Inr res" by (rule res)
    show "valid res \<longleftrightarrow>
           (\<forall>f \<in> set (schema_fields schema). \<exists>st. field_check R f (inp (name f)) = Inr ([], st))"
      using clean by (simp add: res_def)
    show "valid res \<longrightarrow>
           errors res = None
           \<and> (\<exists>d. data res = Some d
                 \<and> fst ` set d = {name f | f. f \<in> set (schema_fields schema)
                                              \<and> \<not> is_blank (inp (name f))}
                 \<and> (\<forall>(k, v) \<in> set d. \<exists>f \<in> set (schema_fields schema).
                        name f = k \<and> normalized R f (inp k) = Some v))"
    proof
      assume "valid res"
      then have e: "errs = []" by (simp add: res_def)
      then have "data res = Some dat" "errors res = None" by (simp_all add: res_def)
      with dkeys' [OF e] dnorm show "errors res = None
           \<and> (\<exists>d. data res = Some d
                 \<and> fst ` set d = {name f | f. f \<in> set (schema_fields schema)
                                              \<and> \<not> is_blank (inp (name f))}
                 \<and> (\<forall>(k, v) \<in> set d. \<exists>f \<in> set (schema_fields schema).
                        name f = k \<and> normalized R f (inp k) = Some v))"
        by blast
    qed
    show "\<not> valid res \<longrightarrow>
           data res = None
           \<and> (\<exists>em. errors res = Some em
                 \<and> fst ` set em =
                     {name f | f. f \<in> set (schema_fields schema)
                        \<and> (\<exists>fe st. field_check R f (inp (name f)) = Inr (fe, st) \<and> fe \<noteq> [])}
                 \<and> (\<forall>(k, m) \<in> set em. m \<noteq> []
                        \<and> (\<exists>f \<in> set (schema_fields schema). name f = k
                              \<and> (\<exists>st. field_check R f (inp k) = Inr (m, st)))))"
    proof
      assume "\<not> valid res"
      then have e: "errs \<noteq> []" by (simp add: res_def)
      then have "data res = None" "errors res = Some errs" by (simp_all add: res_def)
      with ekeys eent show "data res = None
           \<and> (\<exists>em. errors res = Some em
                 \<and> fst ` set em =
                     {name f | f. f \<in> set (schema_fields schema)
                        \<and> (\<exists>fe st. field_check R f (inp (name f)) = Inr (fe, st) \<and> fe \<noteq> [])}
                 \<and> (\<forall>(k, m) \<in> set em. m \<noteq> []
                        \<and> (\<exists>f \<in> set (schema_fields schema). name f = k
                              \<and> (\<exists>st. field_check R f (inp k) = Inr (m, st)))))"
        by blast
    qed
  qed
next
  show "\<forall>test. RegExp R ''^[0-9]{15}$'' = Some test \<and> test ''123456789012345'' \<and> \<not> test ''12345''
        \<longrightarrow> validate R exampleIMEISchema (imei_input ''12345'') =
              Inr \<lparr> valid = False,
                    errors = Some [(''imei'',
                       [''IMEI Number format is invalid'',
                        ''IMEI Number must be at least '' @ NumberToString R (Finite 15)
                          @ '' characters''])],
                    data = None \<rparr>
            \<and> validate R exampleIMEISchema (imei_input ''123456789012345'') =
              Inr \<lparr> valid = True, errors = None,
                    data = Some [(''imei'', JString ''123456789012345'')] \<rparr>"
    using imei_short imei_full by blast
qed

theorem validate_collects_all_errors_witness:
  "validate sample_runtime exampleIMEISchema (imei_input ''123456789012345'')
     = Inr \<lparr> valid = True, errors = None,
             data = Some [(''imei'', JString ''123456789012345'')] \<rparr>
   \<and> validate sample_runtime exampleIMEISchema (imei_input ''12345'')
     = Inr \<lparr> valid = False,
             errors = Some [(''imei'',
                [''IMEI Number format is invalid'',
                 ''IMEI Number must be at least 15 characters''])],
             data = None \<rparr>
   \<and> (\<exists>res em. validate sample_runtime exampleIMEISchema (imei_input ''12345'') = Inr res
         \<and> errors res = Some em
         \<and> fst ` set em =
             {name f | f. f \<in> set (schema_fields exampleIMEISchema)
                \<and> (\<exists>fe st. field_check sample_runtime f (imei_input ''12345'' (name f)) = Inr (fe, st)
                      \<and> fe \<noteq> [])})"
proof -
  have names: "\<forall>f \<in> set (schema_fields exampleIMEISchema). name f \<noteq> ''__proto__''"
    by (simp add: exampleIMEISchema_def)
  have pats: "\<forall>f \<in> set (schema_fields exampleIMEISchema).
                 \<forall>v p. validation f = Some v \<longrightarrow> pattern v = Some p
                   \<longrightarrow> RegExp sample_runtime p \<noteq> None"
    by (simp add: exampleIMEISchema_def sample_runtime_def)
  have coer: "\<forall>f \<in> set (schema_fields exampleIMEISchema).
                 \<forall>r. imei_input ''12345'' (name f) = JOther r \<longrightarrow>
                   (\<exists>n. OtherToNumber sample_runtime r = Inr n)
                   \<and> (\<exists>s. OtherToString sample_runtime r = Inr s)"
    by (simp add: exampleIMEISchema_def imei_input_def)
  have re: "RegExp sample_runtime ''^[0-9]{15}$''
              = Some (\<lambda>s. length s = 15 \<and> list_all (\<lambda>c. c \<in> set ''0123456789'') s)"
    by (simp add: sample_runtime_def)
  have t: "(\<lambda>s. length s = 15 \<and> list_all (\<lambda>c. c \<in> set ''0123456789'') s) ''123456789012345''"
    "\<not> (\<lambda>s. length s = 15 \<and> list_all (\<lambda>c. c \<in> set ''0123456789'') s) ''12345''"
    by simp_all
  have n: "NumberToString sample_runtime (Finite 15) = ''15''"
    by (simp add: sample_runtime_def)
  note gen = validate_collects_all_errors [OF names pats coer]
  from gen [THEN conjunct2, rule_format,
      of "\<lambda>s. length s = 15 \<and> list_all (\<lambda>c. c \<in> set ''0123456789'') s"] re t
  have ab: "validate sample_runtime exampleIMEISchema (imei_input ''12345'') =
              Inr \<lparr> valid = False,
                    errors = Some [(''imei'',
                       [''IMEI Number format is invalid'',
                        ''IMEI Number must be at least '' @ NumberToString sample_runtime (Finite 15)
                          @ '' characters''])],
                    data = None \<rparr>
            \<and> validate sample_runtime exampleIMEISchema (imei_input ''123456789012345'') =
              Inr \<lparr> valid = True, errors = None,
                    data = Some [(''imei'', JString ''123456789012345'')] \<rparr>"
    by blast
  from ab have a:
    "validate sample_runtime exampleIMEISchema (imei_input ''123456789012345'')
       = Inr \<lparr> valid = True, errors = None,
               data = Some [(''imei'', JString ''123456789012345'')] \<rparr>"
    by (rule conjunct2)
  from ab [THEN conjunct1] have b: "validate sample_runtime exampleIMEISchema (imei_input ''12345'')
       = Inr \<lparr> valid = False,
             errors = Some [(''imei'',
                [''IMEI Number format is invalid'',
                 ''IMEI Number must be at least 15 characters''])],
             data = None \<rparr>"
    unfolding n by simp
  from gen [THEN conjunct1] obtain res where
    R: "validate sample_runtime exampleIMEISchema (imei_input ''12345'') = Inr res
      \<and> (valid res \<longleftrightarrow>
           (\<forall>f \<in> set (schema_fields exampleIMEISchema).
              \<exists>st. field_check sample_runtime f (imei_input ''12345'' (name f)) = Inr ([], st)))
      \<and> (valid res \<longrightarrow>
           errors res = None
           \<and> (\<exists>d. data res = Some d
                 \<and> fst ` set d = {name f | f. f \<in> set (schema_fields exampleIMEISchema)
                                              \<and> \<not> is_blank (imei_input ''12345'' (name f))}
                 \<and> (\<forall>(k, v) \<in> set d. \<exists>f \<in> set (schema_fields exampleIMEISchema).
                        name f = k \<and> normalized sample_runtime f (imei_input ''12345'' k) = Some v)))
      \<and> (\<not> valid res \<longrightarrow>
           data res = None
           \<and> (\<exists>em. errors res = Some em
                 \<and> fst ` set em =
                     {name f | f. f \<in> set (schema_fields exampleIMEISchema)
                        \<and> (\<exists>fe st. field_check sample_runtime f (imei_input ''12345'' (name f))
                                      = Inr (fe, st) \<and> fe \<noteq> [])}
                 \<and> (\<forall>(k, m) \<in> set em. m \<noteq> []
                        \<and> (\<exists>f \<in> set (schema_fields exampleIMEISchema). name f = k
                              \<and> (\<exists>st. field_check sample_runtime f (imei_input ''12345'' k)
                                         = Inr (m, st))))))" ..
  from R have r: "validate sample_runtime exampleIMEISchema (imei_input ''12345'') = Inr res"
    by (rule conjunct1)
  from r b have nv: "\<not> valid res" by auto
  from R [THEN conjunct2, THEN conjunct2, THEN conjunct2, rule_format, OF nv]
  obtain em where em: "errors res = Some em"
    "fst ` set em =
       {name f | f. f \<in> set (schema_fields exampleIMEISchema)
          \<and> (\<exists>fe st. field_check sample_runtime f (imei_input ''12345'' (name f))
                        = Inr (fe, st) \<and> fe \<noteq> [])}"
    by (elim conjE exE)
  have c: "\<exists>res em. validate sample_runtime exampleIMEISchema (imei_input ''12345'') = Inr res
         \<and> errors res = Some em
         \<and> fst ` set em =
             {name f | f. f \<in> set (schema_fields exampleIMEISchema)
                \<and> (\<exists>fe st. field_check sample_runtime f (imei_input ''12345'' (name f)) = Inr (fe, st)
                      \<and> fe \<noteq> [])}"
    using r em by (intro exI conjI)
  from a b c show ?thesis by (intro conjI)
qed

text \<open>
  For every schema the statement fails in two ways. A required field named \<open>__proto__\<close>
  that is \<open>null\<close> in the input produces an error, but the assignment
  \<open>errors['__proto__'] = fieldErrors\<close> adds no own key, so the result is \<open>valid = true\<close>.
  And a field with the malformed pattern \<open>[\<close> makes \<open>new RegExp\<close> throw on a string
  value, so \<open>validate\<close> returns nothing.
\<close>

theorem validate_counterexample:
  "field_check sample_runtime (sample_field ''__proto__'' None) JNull
     = Inr ([''Serial is required''], None)
   \<and> validate sample_runtime \<lparr> schema_fields = [sample_field ''__proto__'' None] \<rparr>
        (sample_object ''__proto__'' JNull)
     = Inr \<lparr> valid = True, errors = None, data = Some [] \<rparr>
   \<and> RegExp sample_runtime ''['' = None
   \<and> validate sample_runtime \<lparr> schema_fields = [sample_field ''code'' (Some ''['')] \<rparr>
        (sample_object ''code'' (JString ''A1''))
     = Inl SyntaxError"
  by (simp add: validate_def validate_step_def field_check_def type_check_def rule_checks_def
        pattern_rule_def bind_err_simps obj_assign_def sample_field_def sample_object_def
        sample_runtime_def is_blank_def)

end
